theory Spec2Isabelle
  imports Complex_Main "HOL-Library.Monad_Syntax"
begin

section \<open>Strings\<close>

text \<open>
  JavaScript strings are modelled as \<^typ>\<open>string\<close> (lists of 8-bit characters); the
  model covers ASCII text. The white space class of \<^verbatim>\<open>\s\<close>, \<^verbatim>\<open>trim\<close> and
  \<^verbatim>\<open>parseInt\<close> is therefore the ASCII part of the JavaScript class: tab, line feed,
  vertical tab, form feed, carriage return and space.
\<close>

definition isSpace :: "char \<Rightarrow> bool" where
  "isSpace c = (c \<in> set [CHR 0x09, CHR 0x0A, CHR 0x0B, CHR 0x0C, CHR 0x0D, CHR 0x20])"

definition isDigit :: "char \<Rightarrow> bool" where
  "isDigit c = (c \<in> set ''0123456789'')"

text \<open>Line terminators: the characters the regular expression \<^verbatim>\<open>.\<close> does not match.\<close>

definition isLineTerminator :: "char \<Rightarrow> bool" where
  "isLineTerminator c = (c = CHR 0x0A \<or> c = CHR 0x0D)"

definition digitVal :: "char \<Rightarrow> int" where
  "digitVal c = int (of_char c) - 48"

text \<open>\<^verbatim>\<open>s.split(c)\<close> for a one-character separator: \<^verbatim>\<open>"".split(".")\<close> is \<^verbatim>\<open>[""]\<close>,
  and adjacent separators give empty pieces.\<close>

fun splitAcc :: "char \<Rightarrow> string \<Rightarrow> string \<Rightarrow> string list" where
  "splitAcc c acc [] = [rev acc]"
| "splitAcc c acc (x # xs) =
     (if x = c then rev acc # splitAcc c [] xs else splitAcc c (x # acc) xs)"

definition split :: "char \<Rightarrow> string \<Rightarrow> string list" where
  "split c s = splitAcc c [] s"

text \<open>\<^verbatim>\<open>s.split(/\s+/)\<close>: the separators are the maximal runs of white space; white space
  at either end of \<open>s\<close> gives an empty first or last piece. The flag says that the
  previous character was white space.\<close>

fun splitWsAcc :: "string \<Rightarrow> bool \<Rightarrow> string \<Rightarrow> string list" where
  "splitWsAcc acc insep [] = [rev acc]"
| "splitWsAcc acc insep (x # xs) =
     (if isSpace x
      then (if insep then splitWsAcc [] True xs else rev acc # splitWsAcc [] True xs)
      else splitWsAcc (x # acc) False xs)"

definition splitWs :: "string \<Rightarrow> string list" where
  "splitWs s = splitWsAcc [] False s"

text \<open>\<^verbatim>\<open>s.trim()\<close>.\<close>

definition trim :: "string \<Rightarrow> string" where
  "trim s = rev (dropWhile isSpace (rev (dropWhile isSpace s)))"

section \<open>Version comparison (cve.ts)\<close>

text \<open>
  \<^verbatim>\<open>parseInt(n, 10)\<close>: skip leading white space, read an optional sign, then the longest
  run of decimal digits; \<open>None\<close> is \<^verbatim>\<open>NaN\<close> (no digit). The value is an \<^typ>\<open>int\<close>:
  JavaScript numbers are doubles, which hold integers exactly below \<open>2^53\<close>, and the model
  is exact for version components in that range.
\<close>

definition digitsVal :: "string \<Rightarrow> int" where
  "digitsVal ds = foldl (\<lambda>a c. 10 * a + digitVal c) 0 ds"

definition parseInt10 :: "string \<Rightarrow> int option" where
  "parseInt10 s =
     (let s1 = dropWhile isSpace s;
          sign = (case s1 of c # r \<Rightarrow> (if c = CHR ''-'' then - 1 else 1) | [] \<Rightarrow> 1);
          s2 = (case s1 of c # r \<Rightarrow> (if c = CHR ''-'' \<or> c = CHR ''+'' then r else s1) | [] \<Rightarrow> s1);
          ds = takeWhile isDigit s2
      in if ds = [] then None else Some (sign * digitsVal ds))"

text \<open>\<^verbatim>\<open>parseInt(n, 10) || 0\<close>: \<^verbatim>\<open>NaN\<close> (and zero) become \<open>0\<close>.\<close>

definition parseIntOr0 :: "string \<Rightarrow> int" where
  "parseIntOr0 n = (case parseInt10 n of None \<Rightarrow> 0 | Some k \<Rightarrow> k)"

text \<open>\<^verbatim>\<open>v.replace(/^[^0-9]*/, "").split(".").map(n => parseInt(n, 10) || 0)\<close>\<close>

definition parseVersion :: "string \<Rightarrow> int list" where
  "parseVersion v = map parseIntOr0 (split (CHR ''.'') (dropWhile (\<lambda>c. \<not> isDigit c) v))"

text \<open>\<^verbatim>\<open>pa[i] || 0\<close>: an index past the end reads \<^verbatim>\<open>undefined\<close>, which becomes \<open>0\<close>.\<close>

definition at0 :: "int list \<Rightarrow> nat \<Rightarrow> int" where
  "at0 xs i = (if i < length xs then xs ! i else 0)"

text \<open>The loop of \<^verbatim>\<open>compareVersions\<close>, from index \<open>i\<close> on.\<close>

function compareFrom :: "int list \<Rightarrow> int list \<Rightarrow> nat \<Rightarrow> int" where
  "compareFrom pa pb i =
     (if i < max (length pa) (length pb)
      then (let va = at0 pa i; vb = at0 pb i
            in if va \<noteq> vb then va - vb else compareFrom pa pb (i + 1))
      else 0)"
  by pat_completeness auto
termination
  by (relation "measure (\<lambda>(pa, pb, i). max (length pa) (length pb) - i)") auto

declare compareFrom.simps [simp del]

definition compareVersions :: "string \<Rightarrow> string \<Rightarrow> int" where
  "compareVersions a b = compareFrom (parseVersion a) (parseVersion b) 0"

section \<open>Range matching (cve.ts)\<close>

definition isOpChar :: "char \<Rightarrow> bool" where
  "isOpChar c = (c \<in> set ''><=!'')"

text \<open>
  \<^verbatim>\<open>part.match(/^([><=!]+)(.+)$/)\<close>: the operator group is greedy and the second group
  needs at least one character, none of them a line terminator. When the whole part
  consists of operator characters the matcher backtracks by one character, so that the
  last of them becomes the target.
\<close>

definition matchPart :: "string \<Rightarrow> (string \<times> string) option" where
  "matchPart part =
     (let op = takeWhile isOpChar part; rest = dropWhile isOpChar part
      in if op = [] then None
         else if rest \<noteq> [] then
           (if list_ex isLineTerminator rest then None else Some (op, rest))
         else if 2 \<le> length op then Some (butlast op, [last op])
         else None)"

text \<open>The \<^verbatim>\<open>switch (op)\<close>: \<open>True\<close> when the constraint lets the version pass; an
  operator that is none of the six cases constrains nothing.\<close>

definition opHolds :: "string \<Rightarrow> int \<Rightarrow> bool" where
  "opHolds op cmp =
     (if op = ''>='' then \<not> cmp < 0
      else if op = ''>'' then \<not> cmp \<le> 0
      else if op = ''<='' then \<not> cmp > 0
      else if op = ''<'' then \<not> cmp \<ge> 0
      else if op = ''='' \<or> op = ''=='' then \<not> cmp \<noteq> 0
      else True)"

text \<open>The loop over the parts: the first failing constraint returns \<open>False\<close>.\<close>

fun rangeLoop :: "string \<Rightarrow> string list \<Rightarrow> bool" where
  "rangeLoop version [] = True"
| "rangeLoop version (part # parts) =
     (case matchPart part of
        None \<Rightarrow> rangeLoop version parts
      | Some (op, target) \<Rightarrow>
          (if opHolds op (compareVersions version target) then rangeLoop version parts
           else False))"

definition isInRange :: "string \<Rightarrow> string \<Rightarrow> bool" where
  "isInRange version rangeExpr = rangeLoop version (splitWs rangeExpr)"

section \<open>The advisory catalogue (cve.ts)\<close>

datatype Severity = Critical | High | Moderate | Low

text \<open>The fields \<^verbatim>\<open>id\<close>, \<^verbatim>\<open>package\<close>, \<^verbatim>\<open>severity\<close>, \<^verbatim>\<open>title\<close>, \<^verbatim>\<open>url\<close> and
  \<^verbatim>\<open>date\<close> of \<^verbatim>\<open>CveAdvisory\<close> carry the prefix \<open>cve_\<close>: the audit records below use the
  same names.\<close>

record CveAdvisory =
  cve_id :: string
  cve_package :: string
  cve_severity :: Severity
  cve_title :: string
  affectedVersions :: string
  patchedVersion :: string
  cve_url :: string
  cve_date :: string

record CveMatch =
  advisory :: CveAdvisory
  installedVersion :: string
  isAffected :: bool

record CveCheckResult =
  cve_project :: string
  affected :: "CveMatch list"
  scannedPackages :: nat

definition CVE_DATABASE :: "CveAdvisory list" where
  "CVE_DATABASE = [
     \<lparr>cve_id = ''CVE-2026-22775'', cve_package = ''devalue'', cve_severity = High,
      cve_title = ''DoS via memory/CPU exhaustion in devalue.parse'',
      affectedVersions = ''>=5.1.0 <5.6.2'', patchedVersion = ''5.6.2'',
      cve_url = ''https://github.com/sveltejs/devalue/security/advisories/GHSA-g2pg-6438-jwpf'',
      cve_date = ''2026-01-15''\<rparr>,
     \<lparr>cve_id = ''CVE-2026-22774'', cve_package = ''devalue'', cve_severity = High,
      cve_title = ''DoS via memory exhaustion in devalue.parse'',
      affectedVersions = ''>=5.3.0 <5.6.2'', patchedVersion = ''5.6.2'',
      cve_url = ''https://github.com/sveltejs/devalue/security/advisories/GHSA-vw5p-8cq8-m7mv'',
      cve_date = ''2026-01-15''\<rparr>,
     \<lparr>cve_id = ''CVE-2026-22803'', cve_package = ''@sveltejs/kit'', cve_severity = High,
      cve_title = ''Memory amplification DoS in Remote Functions binary form deserializer'',
      affectedVersions = ''>=2.49.0 <2.49.5'', patchedVersion = ''2.49.5'',
      cve_url = ''https://github.com/sveltejs/kit/security/advisories/GHSA-j2f3-wq62-6q46'',
      cve_date = ''2026-01-15''\<rparr>,
     \<lparr>cve_id = ''CVE-2025-67647'', cve_package = ''@sveltejs/kit'', cve_severity = Critical,
      cve_title = ''DoS and SSRF via prerendering'',
      affectedVersions = ''>=2.19.0 <2.49.5'', patchedVersion = ''2.49.5'',
      cve_url = ''https://github.com/sveltejs/kit/security/advisories/GHSA-j62c-4x62-9r35'',
      cve_date = ''2026-01-15''\<rparr>,
     \<lparr>cve_id = ''CVE-2025-67647'', cve_package = ''@sveltejs/adapter-node'', cve_severity = High,
      cve_title = ''DoS and SSRF when using prerendering without ORIGIN env var'',
      affectedVersions = ''<5.5.1'', patchedVersion = ''5.5.1'',
      cve_url = ''https://github.com/sveltejs/kit/security/advisories/GHSA-j62c-4x62-9r35'',
      cve_date = ''2026-01-15''\<rparr>,
     \<lparr>cve_id = ''CVE-2025-15265'', cve_package = ''svelte'', cve_severity = Moderate,
      cve_title = ''XSS via hydratable with unsanitized user-controlled keys'',
      affectedVersions = ''>=5.46.0 <5.46.4'', patchedVersion = ''5.46.4'',
      cve_url = ''https://github.com/sveltejs/svelte/security/advisories/GHSA-6738-r8g5-qwp3'',
      cve_date = ''2026-01-15''\<rparr>,
     \<lparr>cve_id = ''CVE-2025-29927'', cve_package = ''next'', cve_severity = Critical,
      cve_title = ''Authorization bypass via x-middleware-subrequest header'',
      affectedVersions = ''>=12.0.0 <14.2.25'', patchedVersion = ''14.2.25'',
      cve_url = ''https://github.com/vercel/next.js/security/advisories/GHSA-f82v-jh2m-4xrg'',
      cve_date = ''2025-03-21''\<rparr>,
     \<lparr>cve_id = ''CVE-2024-56332'', cve_package = ''next'', cve_severity = High,
      cve_title = ''DoS via image optimization'',
      affectedVersions = ''>=10.0.0 <14.2.21'', patchedVersion = ''14.2.21'',
      cve_url = ''https://github.com/vercel/next.js/security/advisories/GHSA-gp8f-8m3g-qvj9'',
      cve_date = ''2024-12-17''\<rparr>,
     \<lparr>cve_id = ''CVE-2024-29041'', cve_package = ''express'', cve_severity = Moderate,
      cve_title = ''Open redirect in express.response.redirect'',
      affectedVersions = ''<4.19.2'', patchedVersion = ''4.19.2'',
      cve_url = ''https://github.com/expressjs/express/security/advisories/GHSA-rv95-896h-c2vc'',
      cve_date = ''2024-03-25''\<rparr>,
     \<lparr>cve_id = ''CVE-2025-30208'', cve_package = ''vite'', cve_severity = High,
      cve_title = ''Arbitrary file access via special URL characters'',
      affectedVersions = ''>=6.0.0 <6.0.12'', patchedVersion = ''6.0.12'',
      cve_url = ''https://github.com/vitejs/vite/security/advisories/GHSA-x574-m823-4c42'',
      cve_date = ''2025-03-24''\<rparr>,
     \<lparr>cve_id = ''CVE-2025-27152'', cve_package = ''axios'', cve_severity = High,
      cve_title = ''SSRF and credential leakage via absolute URL override'',
      affectedVersions = ''>=1.0.0 <1.8.2'', patchedVersion = ''1.8.2'',
      cve_url = ''https://github.com/axios/axios/security/advisories/GHSA-jr45-m27q-7655'',
      cve_date = ''2025-03-07''\<rparr>]"

text \<open>
  The object that \<^verbatim>\<open>getInstalledVersions\<close> returns, of type \<^verbatim>\<open>Record<string, string>\<close>,
  is an association list of its own properties (distinct keys, in enumeration order).
  \<^verbatim>\<open>installed[advisory.package]\<close> is \<^const>\<open>map_of\<close>, with \<open>None\<close> for \<^verbatim>\<open>undefined\<close>.
  The loop over the catalogue: \<^verbatim>\<open>if (!version) continue\<close> skips a package that is not in
  the object and also one whose version is the empty string.
\<close>

fun cveLoop :: "(string \<times> string) list \<Rightarrow> CveAdvisory list \<Rightarrow> CveMatch list" where
  "cveLoop installed [] = []"
| "cveLoop installed (adv # rest) =
     (case map_of installed (cve_package adv) of
        None \<Rightarrow> cveLoop installed rest
      | Some version \<Rightarrow>
          (if version = [] then cveLoop installed rest
           else if isInRange version (affectedVersions adv)
           then \<lparr>advisory = adv, installedVersion = version, isAffected = True\<rparr>
                # cveLoop installed rest
           else cveLoop installed rest))"

text \<open>\<^verbatim>\<open>checkProjectCves\<close>. Reading the project's files is the work of
  \<^verbatim>\<open>getInstalledVersions\<close>, passed in as a function of the project path.\<close>

definition checkProjectCves ::
  "(string \<Rightarrow> (string \<times> string) list) \<Rightarrow> string \<Rightarrow> string \<Rightarrow> CveCheckResult" where
  "checkProjectCves getInstalledVersions projectPath projectName =
     (let installed = getInstalledVersions projectPath
      in \<lparr>cve_project = projectName,
          affected = cveLoop installed CVE_DATABASE,
          scannedPackages = length (remdups (map fst installed))\<rparr>)"

section \<open>Notions used to state the properties of cve.ts\<close>

text \<open>One part of a range expression lets the version pass: a part that does not match
  the pattern constrains nothing.\<close>

definition partHolds :: "string \<Rightarrow> string \<Rightarrow> bool" where
  "partHolds version part =
     (case matchPart part of
        None \<Rightarrow> True
      | Some (op, target) \<Rightarrow> opHolds op (compareVersions version target))"

text \<open>Two component lists agree at every position, a missing trailing component
  counting as zero.\<close>

definition paddedEqual :: "int list \<Rightarrow> int list \<Rightarrow> bool" where
  "paddedEqual xs ys = list_all (\<lambda>i. at0 xs i = at0 ys i) [0..<max (length xs) (length ys)]"

text \<open>The numeric components of two versions, as \<^verbatim>\<open>parseVersion\<close> reads them, agree
  in that way.\<close>

definition componentsEqual :: "string \<Rightarrow> string \<Rightarrow> bool" where
  "componentsEqual a b = paddedEqual (parseVersion a) (parseVersion b)"

text \<open>A dotted version written out: a numeral is a non-empty string of decimal
  digits, and \<open>joinDots\<close> puts dots between the components.\<close>

definition isNumeral :: "string \<Rightarrow> bool" where
  "isNumeral s = (s \<noteq> [] \<and> list_all isDigit s)"

fun joinDots :: "string list \<Rightarrow> string" where
  "joinDots [] = []"
| "joinDots [c] = c"
| "joinDots (c # d # cs) = c @ ''.'' @ joinDots (d # cs)"

text \<open>The first position at which two component lists differ.\<close>

definition firstDifference :: "int list \<Rightarrow> int list \<Rightarrow> nat option" where
  "firstDifference pa pb =
     find (\<lambda>i. at0 pa i \<noteq> at0 pb i) [0..<max (length pa) (length pb)]"




text \<open>A project whose \<^verbatim>\<open>package.json\<close> declares \<^verbatim>\<open>"express": ""\<close> and has no
  \<^verbatim>\<open>node_modules\<close>: the specifier, stripped of range operators, is the empty string.\<close>

definition emptySpecifierProject :: "string \<Rightarrow> (string \<times> string) list" where
  "emptySpecifierProject projectPath = [(''express'', '''')]"

section \<open>JavaScript values\<close>

text \<open>
  audit.ts reads the output of the audit tools as untyped JSON (\<^verbatim>\<open>any\<close>), so the model
  keeps the values dynamic. A number is a double: \<^verbatim>\<open>NaN\<close>, an infinity, or a finite
  value, of which the model keeps the exact rational; the comparisons with the integer
  thresholds of the code are exact on it. An object is the list of its own properties
  in enumeration order (distinct keys). \<open>JFun\<close> is a built-in function object, which
  only the lookup of an inherited method can yield.
\<close>

datatype jsnum = NaN | NegInf | Fin rat | PosInf

datatype jsval =
    JUndefined
  | JNull
  | JBool bool
  | JNum jsnum
  | JStr string
  | JArr "jsval list"
  | JObj "(string \<times> jsval) list"
  | JFun string

text \<open>\<^verbatim>\<open>ToBoolean\<close>: what \<^verbatim>\<open>!v\<close>, \<^verbatim>\<open>v || w\<close>, \<^verbatim>\<open>v ? a : b\<close> and \<^verbatim>\<open>if (v)\<close> test.\<close>

fun truthy :: "jsval \<Rightarrow> bool" where
  "truthy JUndefined = False"
| "truthy JNull = False"
| "truthy (JBool b) = b"
| "truthy (JNum n) = (n \<noteq> NaN \<and> n \<noteq> Fin 0)"
| "truthy (JStr s) = (s \<noteq> [])"
| "truthy (JArr xs) = True"
| "truthy (JObj kvs) = True"
| "truthy (JFun f) = True"

text \<open>\<^verbatim>\<open>a || b\<close>, for a right operand that cannot throw.\<close>

definition orElse :: "jsval \<Rightarrow> jsval \<Rightarrow> jsval" where
  "orElse a b = (if truthy a then a else b)"

text \<open>The number of a length or a count.\<close>

definition numOf :: "nat \<Rightarrow> jsval" where
  "numOf n = JNum (Fin (of_nat n))"

text \<open>\<^verbatim>\<open>typeof v === "object"\<close> (true of \<^verbatim>\<open>null\<close>) and \<^verbatim>\<open>Array.isArray(v)\<close>.\<close>

fun typeofObject :: "jsval \<Rightarrow> bool" where
  "typeofObject JNull = True"
| "typeofObject (JArr xs) = True"
| "typeofObject (JObj kvs) = True"
| "typeofObject v = False"

fun isArray :: "jsval \<Rightarrow> bool" where
  "isArray (JArr xs) = True"
| "isArray v = False"

text \<open>
  \<^verbatim>\<open>v.p\<close> for the property names that audit.ts reads; \<open>None\<close> is the \<^verbatim>\<open>TypeError\<close> of
  reading a property of \<^verbatim>\<open>undefined\<close> or \<^verbatim>\<open>null\<close>. Of those names only \<^verbatim>\<open>length\<close>
  (arrays and strings) and \<^verbatim>\<open>link\<close> (the method \<^verbatim>\<open>String.prototype.link\<close>) are found
  on a value that is not an object of the JSON text; the code never reads a property of
  a function object.
\<close>

fun get :: "jsval \<Rightarrow> string \<Rightarrow> jsval option" where
  "get JUndefined p = None"
| "get JNull p = None"
| "get (JObj kvs) p = Some (case map_of kvs p of None \<Rightarrow> JUndefined | Some x \<Rightarrow> x)"
| "get (JArr xs) p = Some (if p = ''length'' then numOf (length xs) else JUndefined)"
| "get (JStr s) p =
     Some (if p = ''length'' then numOf (length s)
           else if p = ''link'' then JFun ''link'' else JUndefined)"
| "get v p = Some JUndefined"

text \<open>\<^verbatim>\<open>v?.p\<close>: \<^verbatim>\<open>undefined\<close> when \<open>v\<close> is \<^verbatim>\<open>undefined\<close> or \<^verbatim>\<open>null\<close>.\<close>

definition getOpt :: "jsval \<Rightarrow> string \<Rightarrow> jsval" where
  "getOpt v p = (case get v p of None \<Rightarrow> JUndefined | Some x \<Rightarrow> x)"

text \<open>\<^verbatim>\<open>v[0]\<close> and \<^verbatim>\<open>v?.[0]\<close>.\<close>

fun idx0 :: "jsval \<Rightarrow> jsval option" where
  "idx0 JUndefined = None"
| "idx0 JNull = None"
| "idx0 (JArr xs) = Some (case xs of [] \<Rightarrow> JUndefined | x # r \<Rightarrow> x)"
| "idx0 (JStr s) = Some (case s of [] \<Rightarrow> JUndefined | c # r \<Rightarrow> JStr [c])"
| "idx0 (JObj kvs) = Some (case map_of kvs ''0'' of None \<Rightarrow> JUndefined | Some x \<Rightarrow> x)"
| "idx0 v = Some JUndefined"

definition idx0Opt :: "jsval \<Rightarrow> jsval" where
  "idx0Opt v = (case idx0 v of None \<Rightarrow> JUndefined | Some x \<Rightarrow> x)"

text \<open>The decimal numeral of an array index.\<close>

definition digitChar :: "nat \<Rightarrow> char" where
  "digitChar d = char_of (48 + d)"

function showNat :: "nat \<Rightarrow> string" where
  "showNat n = (if n < 10 then [digitChar n] else showNat (n div 10) @ [digitChar (n mod 10)])"
  by pat_completeness auto
termination
  by (relation "measure id") auto

declare showNat.simps [simp del]

definition indexKeys :: "nat \<Rightarrow> string list" where
  "indexKeys n = map showNat [0..<n]"

text \<open>\<^verbatim>\<open>Object.entries(v)\<close>: the own enumerable properties; those of an array or a string
  are its indices. \<open>None\<close> is the \<^verbatim>\<open>TypeError\<close> on \<^verbatim>\<open>undefined\<close> and \<^verbatim>\<open>null\<close>.\<close>

fun entries :: "jsval \<Rightarrow> (string \<times> jsval) list option" where
  "entries JUndefined = None"
| "entries JNull = None"
| "entries (JObj kvs) = Some kvs"
| "entries (JArr xs) = Some (zip (indexKeys (length xs)) xs)"
| "entries (JStr s) = Some (zip (indexKeys (length s)) (map (\<lambda>c. JStr [c]) s))"
| "entries v = Some []"

section \<open>The environment of a scan\<close>

text \<open>
  What the code obtains from outside itself, fixed for the duration of one scan:
  the file system (\<^verbatim>\<open>existsSync\<close>, \<^verbatim>\<open>path.join\<close>), the child processes
  (\<^verbatim>\<open>execSync\<close> with its command, working directory and timeout), and the built-ins
  \<^verbatim>\<open>JSON.parse\<close> (\<open>None\<close>: \<^verbatim>\<open>SyntaxError\<close>), \<^verbatim>\<open>parseFloat\<close> on a string, and the
  conversions \<^verbatim>\<open>ToNumber\<close> and \<^verbatim>\<open>ToString\<close> where they are not immediate (\<open>None\<close>: the
  \<^verbatim>\<open>TypeError\<close> of an object that has no primitive value).

  \<^verbatim>\<open>execSync\<close> either returns the standard output or throws an error object, of which
  \<^verbatim>\<open>cmd\<close> reads \<^verbatim>\<open>stdout\<close> and \<^verbatim>\<open>stderr\<close> (\<open>None\<close> when the error carries no such field).
\<close>

datatype ExecResult = Returned string | Threw "string option" "string option"

record env =
  existsSync :: "string \<Rightarrow> bool"
  join :: "string \<Rightarrow> string \<Rightarrow> string"
  execSync :: "string \<Rightarrow> string option \<Rightarrow> nat option \<Rightarrow> ExecResult"
  JSON_parse :: "string \<Rightarrow> jsval option"
  parseFloatString :: "string \<Rightarrow> jsnum"
  toNumberOther :: "jsval \<Rightarrow> jsnum option"
  toStringOther :: "jsval \<Rightarrow> string option"

definition ToNumber :: "env \<Rightarrow> jsval \<Rightarrow> jsnum option" where
  "ToNumber e v =
     (case v of
        JNum n \<Rightarrow> Some n
      | JUndefined \<Rightarrow> Some NaN
      | JNull \<Rightarrow> Some (Fin 0)
      | JBool b \<Rightarrow> Some (Fin (if b then 1 else 0))
      | _ \<Rightarrow> toNumberOther e v)"

definition ToString :: "env \<Rightarrow> jsval \<Rightarrow> string option" where
  "ToString e v =
     (case v of
        JStr s \<Rightarrow> Some s
      | JUndefined \<Rightarrow> Some ''undefined''
      | JNull \<Rightarrow> Some ''null''
      | JBool b \<Rightarrow> Some (if b then ''true'' else ''false'')
      | _ \<Rightarrow> toStringOther e v)"

text \<open>\<^verbatim>\<open>n >= k\<close> and \<^verbatim>\<open>n > k\<close> for a number \<open>n\<close> and a finite \<open>k\<close>: false of \<^verbatim>\<open>NaN\<close>.\<close>

fun numGe :: "jsnum \<Rightarrow> rat \<Rightarrow> bool" where
  "numGe (Fin q) k = (k \<le> q)"
| "numGe PosInf k = True"
| "numGe n k = False"

fun numGt :: "jsnum \<Rightarrow> rat \<Rightarrow> bool" where
  "numGt (Fin q) k = (k < q)"
| "numGt PosInf k = True"
| "numGt n k = False"

text \<open>\<^verbatim>\<open>v > 0\<close>\<close>

definition gt0 :: "env \<Rightarrow> jsval \<Rightarrow> bool option" where
  "gt0 e v = map_option (\<lambda>n. numGt n 0) (ToNumber e v)"

text \<open>\<^verbatim>\<open>parseFloat(v)\<close> converts its argument to a string first.\<close>

definition parseFloat :: "env \<Rightarrow> jsval \<Rightarrow> jsnum option" where
  "parseFloat e v = map_option (parseFloatString e) (ToString e v)"

definition truthyStr :: "string option \<Rightarrow> bool" where
  "truthyStr s = (case s of None \<Rightarrow> False | Some t \<Rightarrow> t \<noteq> [])"

section \<open>The audit adapters (audit.ts)\<close>

record VulnerabilityInfo =
  package :: jsval
  severity :: jsval
  title :: jsval
  url :: jsval
  fixVersion :: jsval
  currentVersion :: jsval

text \<open>The counts of an \<^verbatim>\<open>AuditResult\<close> are declared \<^verbatim>\<open>number\<close>; the node adapter can
  store any value of the tool's metadata in them.\<close>

record AuditResult =
  project :: string
  language :: string
  vulnerabilities :: "VulnerabilityInfo list"
  totalVulnerabilities :: jsval
  critical :: jsval
  high :: jsval
  moderate :: jsval
  low :: jsval
  auditCommand :: string
  error :: "string option"

definition cmd :: "env \<Rightarrow> string \<Rightarrow> string \<Rightarrow> nat \<Rightarrow> string option" where
  "cmd e command cwd timeout =
     (case execSync e command (Some cwd) (Some timeout) of
        Returned out \<Rightarrow> Some (trim out)
      | Threw stdout stderr \<Rightarrow>
          (if truthyStr stdout then map_option trim stdout
           else if truthyStr stderr then map_option trim stderr
           else None))"

definition cmdExists :: "env \<Rightarrow> string \<Rightarrow> bool" where
  "cmdExists e name =
     (case execSync e (''which '' @ name) None None of
        Returned out \<Rightarrow> True
      | Threw stdout stderr \<Rightarrow> False)"

definition emptyResult :: "string \<Rightarrow> string \<Rightarrow> string \<Rightarrow> string option \<Rightarrow> AuditResult" where
  "emptyResult proj lang auditCmd err =
     \<lparr>project = proj, language = lang, vulnerabilities = [], totalVulnerabilities = numOf 0,
      critical = numOf 0, high = numOf 0, moderate = numOf 0, low = numOf 0,
      auditCommand = auditCmd, error = err\<rparr>"

text \<open>\<^verbatim>\<open>vulns.filter(v => v.severity === s).length\<close>\<close>

definition countSeverity :: "string \<Rightarrow> VulnerabilityInfo list \<Rightarrow> nat" where
  "countSeverity s vulns = length (filter (\<lambda>v. severity v = JStr s) vulns)"

subsection \<open>node\<close>

datatype PackageManager = Pnpm | Yarn | Bun | Npm

text \<open>\<^verbatim>\<open>via.find(v => typeof v === "object" && v.title)\<close>: \<open>Some JUndefined\<close> when no
  element qualifies; a \<^verbatim>\<open>null\<close> element met on the way throws.\<close>

fun findAdvisory :: "jsval list \<Rightarrow> jsval option" where
  "findAdvisory [] = Some JUndefined"
| "findAdvisory (v # vs) =
     (if typeofObject v
      then (case get v ''title'' of
              None \<Rightarrow> None
            | Some t \<Rightarrow> if truthy t then Some v else findAdvisory vs)
      else findAdvisory vs)"

text \<open>The body of the loop over \<^verbatim>\<open>Object.entries(data.vulnerabilities)\<close>.\<close>

definition nodeVuln :: "string \<times> jsval \<Rightarrow> VulnerabilityInfo option" where
  "nodeVuln entry =
     (case entry of (pkg, info) \<Rightarrow>
      do {
        infoVia \<leftarrow> get info ''via'';
        let via = (case infoVia of JArr xs \<Rightarrow> xs | _ \<Rightarrow> []);
        adv \<leftarrow> findAdvisory via;
        infoSeverity \<leftarrow> get info ''severity'';
        fixAvailable \<leftarrow> get info ''fixAvailable'';
        infoRange \<leftarrow> get info ''range'';
        Some \<lparr>package = JStr pkg,
              severity = orElse infoSeverity (JStr ''moderate''),
              title = orElse (getOpt adv ''title'') (JStr (''Vulnerability in '' @ pkg)),
              url = orElse (getOpt adv ''url'') (JStr ''''),
              fixVersion =
                (if typeofObject fixAvailable then orElse (getOpt fixAvailable ''version'') JNull
                 else if truthy fixAvailable then JStr ''available'' else JNull),
              currentVersion = orElse infoRange JNull\<rparr>
      })"

text \<open>The body of the \<^verbatim>\<open>try\<close> block for npm and pnpm; \<open>None\<close> is any exception, which
  the \<^verbatim>\<open>catch\<close> turns into the parse-failure result.\<close>

definition nodeParse :: "env \<Rightarrow> string \<Rightarrow> string \<Rightarrow> string \<Rightarrow> AuditResult option" where
  "nodeParse e projectName auditCmd raw =
     do {
       data \<leftarrow> JSON_parse e raw;
       dataVulns \<leftarrow> get data ''vulnerabilities'';
       vulns \<leftarrow> (if truthy dataVulns
                 then do { es \<leftarrow> entries dataVulns; those (map nodeVuln es) }
                 else Some []);
       metadata \<leftarrow> get data ''metadata'';
       let meta = orElse (getOpt metadata ''vulnerabilities'') (JObj []);
       metaTotal \<leftarrow> get meta ''total'';
       metaCritical \<leftarrow> get meta ''critical'';
       metaHigh \<leftarrow> get meta ''high'';
       metaModerate \<leftarrow> get meta ''moderate'';
       metaLow \<leftarrow> get meta ''low'';
       Some \<lparr>project = projectName, language = ''node'', vulnerabilities = vulns,
             totalVulnerabilities = orElse metaTotal (numOf (length vulns)),
             critical = orElse metaCritical (numOf (countSeverity ''critical'' vulns)),
             high = orElse metaHigh (numOf (countSeverity ''high'' vulns)),
             moderate = orElse metaModerate (numOf (countSeverity ''moderate'' vulns)),
             low = orElse metaLow (numOf (countSeverity ''low'' vulns)),
             auditCommand = auditCmd, error = None\<rparr>
     }"

definition auditNode :: "env \<Rightarrow> string \<Rightarrow> string \<Rightarrow> AuditResult" where
  "auditNode e projectPath projectName =
     (let pm = (if existsSync e (join e projectPath ''pnpm-lock.yaml'') then Pnpm
                else if existsSync e (join e projectPath ''yarn.lock'') then Yarn
                else if existsSync e (join e projectPath ''bun.lockb'') then Bun
                else Npm);
          auditCmd = (if pm = Pnpm then ''pnpm audit --json''
                      else if pm = Yarn then ''yarn audit --json''
                      else ''npm audit --json'')
      in case cmd e auditCmd projectPath 60000 of
           None \<Rightarrow>
             emptyResult projectName ''node'' auditCmd (Some ''Audit command failed or timed out.'')
         | Some raw \<Rightarrow>
             if raw = [] then
               emptyResult projectName ''node'' auditCmd (Some ''Audit command failed or timed out.'')
             else if pm = Npm \<or> pm = Pnpm then
               (case nodeParse e projectName auditCmd raw of
                  None \<Rightarrow>
                    emptyResult projectName ''node'' auditCmd (Some ''Failed to parse audit output.'')
                | Some r \<Rightarrow> r)
             else emptyResult projectName ''node'' auditCmd None)"

subsection \<open>rust\<close>

definition mapRustSeverity :: "env \<Rightarrow> jsval \<Rightarrow> string option" where
  "mapRustSeverity e cvss =
     (if \<not> truthy cvss then Some ''moderate''
      else do {
        score \<leftarrow> (case cvss of JNum n \<Rightarrow> Some n | _ \<Rightarrow> parseFloat e cvss);
        Some (if numGe score 9 then ''critical''
              else if numGe score 7 then ''high''
              else if numGe score 4 then ''moderate''
              else ''low'')
      })"

definition rustVuln :: "env \<Rightarrow> jsval \<Rightarrow> VulnerabilityInfo option" where
  "rustVuln e v =
     do {
       adv \<leftarrow> get v ''advisory'';
       sev \<leftarrow> mapRustSeverity e (getOpt adv ''cvss'');
       versions \<leftarrow> get v ''versions'';
       pkg \<leftarrow> get v ''package'';
       Some \<lparr>package = orElse (getOpt adv ''package'') (JStr ''unknown''),
             severity = JStr sev,
             title = orElse (getOpt adv ''title'') (JStr ''Unknown vulnerability''),
             url = orElse (getOpt adv ''url'') (JStr ''''),
             fixVersion = orElse (idx0Opt (getOpt versions ''patched'')) JNull,
             currentVersion = orElse (getOpt pkg ''version'') JNull\<rparr>
     }"

text \<open>The result record that the rust and python adapters build from the list.\<close>

definition countedResult ::
  "string \<Rightarrow> string \<Rightarrow> string \<Rightarrow> VulnerabilityInfo list \<Rightarrow> AuditResult" where
  "countedResult projectName lang auditCmd vulns =
     \<lparr>project = projectName, language = lang, vulnerabilities = vulns,
      totalVulnerabilities = numOf (length vulns),
      critical = numOf (countSeverity ''critical'' vulns),
      high = numOf (countSeverity ''high'' vulns),
      moderate = numOf (countSeverity ''moderate'' vulns),
      low = numOf (countSeverity ''low'' vulns),
      auditCommand = auditCmd, error = None\<rparr>"

text \<open>\<^verbatim>\<open>(data.vulnerabilities?.list || []).map(...)\<close>: a list that is not an array has no
  \<^verbatim>\<open>map\<close>, a \<^verbatim>\<open>TypeError\<close>.\<close>

definition rustParse :: "env \<Rightarrow> string \<Rightarrow> string \<Rightarrow> AuditResult option" where
  "rustParse e projectName raw =
     do {
       data \<leftarrow> JSON_parse e raw;
       dataVulns \<leftarrow> get data ''vulnerabilities'';
       vulns \<leftarrow> (case orElse (getOpt dataVulns ''list'') (JArr []) of
                   JArr xs \<Rightarrow> those (map (rustVuln e) xs)
                 | _ \<Rightarrow> None);
       Some (countedResult projectName ''rust'' ''cargo audit --json'' vulns)
     }"

definition auditRust :: "env \<Rightarrow> string \<Rightarrow> string \<Rightarrow> AuditResult" where
  "auditRust e projectPath projectName =
     (if \<not> cmdExists e ''cargo-audit'' \<and> \<not> cmdExists e ''cargo'' then
        emptyResult projectName ''rust'' ''cargo audit''
          (Some ''cargo-audit not installed. Run: cargo install cargo-audit'')
      else case cmd e ''cargo audit --json'' projectPath 60000 of
             None \<Rightarrow>
               emptyResult projectName ''rust'' ''cargo audit --json'' (Some ''Audit command failed.'')
           | Some raw \<Rightarrow>
               if raw = [] then
                 emptyResult projectName ''rust'' ''cargo audit --json'' (Some ''Audit command failed.'')
               else (case rustParse e projectName raw of
                       None \<Rightarrow> emptyResult projectName ''rust'' ''cargo audit --json''
                                 (Some ''Failed to parse audit output.'')
                     | Some r \<Rightarrow> r))"

subsection \<open>python\<close>

text \<open>The filter \<^verbatim>\<open>d => d.vulns && d.vulns.length > 0\<close>.\<close>

definition pyKeep :: "env \<Rightarrow> jsval \<Rightarrow> bool option" where
  "pyKeep e d =
     do {
       dVulns \<leftarrow> get d ''vulns'';
       if truthy dVulns then do { len \<leftarrow> get dVulns ''length''; gt0 e len }
       else Some False
     }"

text \<open>The inner callback \<^verbatim>\<open>v => ({...})\<close> for a dependency \<open>d\<close>.\<close>

definition pyVuln :: "env \<Rightarrow> jsval \<Rightarrow> jsval \<Rightarrow> VulnerabilityInfo option" where
  "pyVuln e d v =
     do {
       dName \<leftarrow> get d ''name'';
       fixVersions \<leftarrow> get v ''fix_versions'';
       vId \<leftarrow> get v ''id'';
       aliases \<leftarrow> get v ''aliases'';
       link \<leftarrow> (if truthy (idx0Opt aliases)
                then do {
                  alias \<leftarrow> idx0 aliases;
                  s \<leftarrow> ToString e alias;
                  Some (JStr (''https://nvd.nist.gov/vuln/detail/'' @ s))
                }
                else Some (JStr ''''));
       dVersion \<leftarrow> get d ''version'';
       Some \<lparr>package = dName,
             severity = (if truthy (getOpt fixVersions ''length'') then JStr ''high''
                         else JStr ''moderate''),
             title = orElse vId (JStr ''Vulnerability''),
             url = link,
             fixVersion = orElse (idx0Opt fixVersions) JNull,
             currentVersion = orElse dVersion JNull\<rparr>
     }"

text \<open>The outer callback \<^verbatim>\<open>d => d.vulns.map(...)\<close>: only an array has \<^verbatim>\<open>map\<close>.\<close>

definition pyDep :: "env \<Rightarrow> jsval \<Rightarrow> VulnerabilityInfo list option" where
  "pyDep e d =
     do {
       dVulns \<leftarrow> get d ''vulns'';
       case dVulns of JArr vs \<Rightarrow> those (map (pyVuln e d) vs) | _ \<Rightarrow> None
     }"

definition pythonParse :: "env \<Rightarrow> string \<Rightarrow> string \<Rightarrow> string \<Rightarrow> AuditResult option" where
  "pythonParse e projectName auditCmd raw =
     do {
       data \<leftarrow> JSON_parse e raw;
       deps \<leftarrow> (if isArray data then Some data
                else do { dd \<leftarrow> get data ''dependencies''; Some (orElse dd (JArr [])) });
       ds \<leftarrow> (case deps of JArr xs \<Rightarrow> Some xs | _ \<Rightarrow> None);
       keeps \<leftarrow> those (map (pyKeep e) ds);
       perDep \<leftarrow> those (map (pyDep e) (map fst (filter snd (zip ds keeps))));
       Some (countedResult projectName ''python'' auditCmd (concat perDep))
     }"

definition auditPython :: "env \<Rightarrow> string \<Rightarrow> string \<Rightarrow> AuditResult" where
  "auditPython e projectPath projectName =
     (if \<not> cmdExists e ''pip-audit'' \<and> \<not> cmdExists e ''pip3'' then
        emptyResult projectName ''python'' ''pip-audit''
          (Some ''pip-audit not installed. Run: pip install pip-audit'')
      else
        let auditTool = (if cmdExists e ''pip-audit'' then ''pip-audit'' else ''pip3'');
            auditCmd = (if auditTool = ''pip-audit''
                        then ''pip-audit --format=json -r requirements.txt''
                        else ''pip3 audit --format=json'')
        in case cmd e auditCmd projectPath 60000 of
             None \<Rightarrow> emptyResult projectName ''python'' auditCmd None
           | Some raw \<Rightarrow>
               if raw = [] then emptyResult projectName ''python'' auditCmd None
               else (case pythonParse e projectName auditCmd raw of
                       None \<Rightarrow> emptyResult projectName ''python'' auditCmd
                                 (Some ''Failed to parse audit output.'')
                     | Some r \<Rightarrow> r))"

subsection \<open>php\<close>

definition phpVuln :: "string \<Rightarrow> jsval \<Rightarrow> VulnerabilityInfo option" where
  "phpVuln pkg adv =
     do {
       advTitle \<leftarrow> get adv ''title'';
       advId \<leftarrow> get adv ''advisoryId'';
       advLink \<leftarrow> get adv ''link'';
       advAffected \<leftarrow> get adv ''affectedVersions'';
       Some \<lparr>package = JStr pkg,
             severity = JStr ''high'',
             title = orElse (orElse advTitle advId) (JStr ''Vulnerability''),
             url = orElse advLink (JStr ''''),
             fixVersion = JNull,
             currentVersion = orElse advAffected JNull\<rparr>
     }"

text \<open>The inner loop for one entry of \<^verbatim>\<open>data.advisories\<close>.\<close>

definition phpEntry :: "string \<times> jsval \<Rightarrow> VulnerabilityInfo list option" where
  "phpEntry entry =
     (case entry of (pkg, advisories) \<Rightarrow>
        those (map (phpVuln pkg) (case advisories of JArr xs \<Rightarrow> xs | _ \<Rightarrow> [])))"

text \<open>The result record of the php and go adapters: every finding counts as high.\<close>

definition highResult ::
  "string \<Rightarrow> string \<Rightarrow> string \<Rightarrow> VulnerabilityInfo list \<Rightarrow> AuditResult" where
  "highResult projectName lang auditCmd vulns =
     \<lparr>project = projectName, language = lang, vulnerabilities = vulns,
      totalVulnerabilities = numOf (length vulns),
      critical = numOf 0, high = numOf (length vulns), moderate = numOf 0, low = numOf 0,
      auditCommand = auditCmd, error = None\<rparr>"

definition phpParse :: "env \<Rightarrow> string \<Rightarrow> string \<Rightarrow> AuditResult option" where
  "phpParse e projectName raw =
     do {
       data \<leftarrow> JSON_parse e raw;
       advisories \<leftarrow> get data ''advisories'';
       es \<leftarrow> entries (orElse advisories (JObj []));
       perPkg \<leftarrow> those (map phpEntry es);
       Some (highResult projectName ''php'' ''composer audit --format=json'' (concat perPkg))
     }"

definition auditPhp :: "env \<Rightarrow> string \<Rightarrow> string \<Rightarrow> AuditResult" where
  "auditPhp e projectPath projectName =
     (if \<not> cmdExists e ''composer'' then
        emptyResult projectName ''php'' ''composer audit'' (Some ''Composer not installed.'')
      else case cmd e ''composer audit --format=json'' projectPath 60000 of
             None \<Rightarrow> emptyResult projectName ''php'' ''composer audit --format=json'' None
           | Some raw \<Rightarrow>
               if raw = [] then
                 emptyResult projectName ''php'' ''composer audit --format=json'' None
               else (case phpParse e projectName raw of
                       None \<Rightarrow> emptyResult projectName ''php'' ''composer audit''
                                 (Some ''Failed to parse.'')
                     | Some r \<Rightarrow> r))"

subsection \<open>go\<close>

text \<open>The body of the inner \<^verbatim>\<open>try\<close> for one line: the findings it pushes (none or one);
  \<open>None\<close> is an exception, after which the line is skipped.\<close>

definition goEntry :: "env \<Rightarrow> string \<Rightarrow> VulnerabilityInfo list option" where
  "goEntry e line =
     do {
       entry \<leftarrow> JSON_parse e line;
       v \<leftarrow> get entry ''vulnerability'';
       if truthy v then
         do {
           modules \<leftarrow> get v ''modules'';
           vId \<leftarrow> get v ''id'';
           s \<leftarrow> ToString e vId;
           Some [\<lparr>package = orElse (getOpt (idx0Opt modules) ''module'') (JStr ''unknown''),
                  severity = JStr ''high'',
                  title = orElse vId (JStr ''Vulnerability''),
                  url = JStr (''https://pkg.go.dev/vuln/'' @ s),
                  fixVersion = orElse (getOpt (idx0Opt modules) ''fixed_version'') JNull,
                  currentVersion = orElse (getOpt (idx0Opt modules) ''found_version'') JNull\<rparr>]
         }
       else Some []
     }"

definition goLine :: "env \<Rightarrow> string \<Rightarrow> VulnerabilityInfo list" where
  "goLine e line = (case goEntry e line of None \<Rightarrow> [] | Some vs \<Rightarrow> vs)"

text \<open>\<^verbatim>\<open>raw.split("\n").filter(Boolean)\<close> and the loop over the lines.\<close>

definition goVulns :: "env \<Rightarrow> string \<Rightarrow> VulnerabilityInfo list" where
  "goVulns e raw = concat (map (goLine e) (filter (\<lambda>l. l \<noteq> []) (split (CHR 0x0A) raw)))"

definition auditGo :: "env \<Rightarrow> string \<Rightarrow> string \<Rightarrow> AuditResult" where
  "auditGo e projectPath projectName =
     (if \<not> cmdExists e ''govulncheck'' then
        emptyResult projectName ''go'' ''govulncheck''
          (Some ''govulncheck not installed. Run: go install golang.org/x/vuln/cmd/govulncheck@latest'')
      else case cmd e ''govulncheck -json ./...'' projectPath 60000 of
             None \<Rightarrow> emptyResult projectName ''go'' ''govulncheck -json ./...'' None
           | Some raw \<Rightarrow>
               if raw = [] then emptyResult projectName ''go'' ''govulncheck -json ./...'' None
               else highResult projectName ''go'' ''govulncheck -json ./...'' (goVulns e raw))"

subsection \<open>Dispatch and aggregation\<close>

definition auditProject :: "env \<Rightarrow> string \<Rightarrow> string \<Rightarrow> string \<Rightarrow> AuditResult" where
  "auditProject e projectPath projectName lang =
     (if lang = ''node'' then auditNode e projectPath projectName
      else if lang = ''rust'' then auditRust e projectPath projectName
      else if lang = ''python'' then auditPython e projectPath projectName
      else if lang = ''php'' then auditPhp e projectPath projectName
      else if lang = ''go'' then auditGo e projectPath projectName
      else emptyResult projectName lang ''N/A''
             (Some (''No audit tool available for '' @ lang @ ''.'')))"

text \<open>An element of the argument of \<^verbatim>\<open>auditAllProjects\<close>; its field \<^verbatim>\<open>language\<close> is
  \<open>planguage\<close> here, \<open>language\<close> being the field of the result.\<close>

record ProjectRef =
  name :: string
  path :: string
  planguage :: string



section \<open>An example environment\<close>

text \<open>
  A workspace of projects used to run the adapters on concrete inputs. The reports are
  JSON texts as the audit tools print them; \<open>exampleParse\<close> is \<^verbatim>\<open>JSON.parse\<close> on these
  texts, and rejects the other texts of the examples, none of which is JSON.
\<close>

definition pnpmReport :: string where
  \<open>pnpmReport = ''{"advisories":{"1097":{"module_name":"lodash","severity":"high"}},"metadata":{"vulnerabilities":{"info":0,"low":0,"moderate":0,"high":1,"critical":0}}}''\<close>

definition pnpmReportJson :: jsval where
  "pnpmReportJson =
     JObj [(''advisories'',
            JObj [(''1097'', JObj [(''module_name'', JStr ''lodash''), (''severity'', JStr ''high'')])]),
           (''metadata'',
            JObj [(''vulnerabilities'',
                   JObj [(''info'', JNum (Fin 0)), (''low'', JNum (Fin 0)),
                         (''moderate'', JNum (Fin 0)), (''high'', JNum (Fin 1)),
                         (''critical'', JNum (Fin 0))])])]"

definition npmReport :: string where
  \<open>npmReport = ''{"vulnerabilities":{"lodash":{"severity":"critical","via":[{"title":"Prototype Pollution","url":"https://github.com/advisories/GHSA-p6mc-m468-83gw"}],"range":"<4.17.19","fixAvailable":true}},"metadata":{"vulnerabilities":{"critical":1,"total":1}}}''\<close>

definition npmReportJson :: jsval where
  "npmReportJson =
     JObj [(''vulnerabilities'',
            JObj [(''lodash'',
                   JObj [(''severity'', JStr ''critical''),
                         (''via'', JArr [JObj [(''title'', JStr ''Prototype Pollution''),
                            (''url'', JStr ''https://github.com/advisories/GHSA-p6mc-m468-83gw'')]]),
                         (''range'', JStr ''<4.17.19''),
                         (''fixAvailable'', JBool True)])]),
           (''metadata'',
            JObj [(''vulnerabilities'',
                   JObj [(''critical'', JNum (Fin 1)), (''total'', JNum (Fin 1))])])]"

definition npmTotalOnly :: string where
  \<open>npmTotalOnly = ''{"vulnerabilities":{},"metadata":{"vulnerabilities":{"total":2}}}''\<close>

definition npmTotalOnlyJson :: jsval where
  "npmTotalOnlyJson =
     JObj [(''vulnerabilities'', JObj []),
           (''metadata'', JObj [(''vulnerabilities'', JObj [(''total'', JNum (Fin 2))])])]"

definition rustClean :: string where
  \<open>rustClean = ''{"vulnerabilities":{"found":false,"count":0,"list":[]}}''\<close>

definition rustCleanJson :: jsval where
  "rustCleanJson =
     JObj [(''vulnerabilities'',
            JObj [(''found'', JBool False), (''count'', JNum (Fin 0)), (''list'', JArr [])])]"

definition rustOne :: string where
  \<open>rustOne = ''{"vulnerabilities":{"found":true,"count":1,"list":[{"advisory":{"package":"time","title":"Potential segfault in the time crate","cvss":6.2},"versions":{"patched":[">=0.2.23"]},"package":{"version":"0.1.45"}}]}}''\<close>

definition rustOneJson :: jsval where
  "rustOneJson =
     JObj [(''vulnerabilities'',
            JObj [(''found'', JBool True), (''count'', JNum (Fin 1)),
                  (''list'',
                   JArr [JObj [(''advisory'',
                                JObj [(''package'', JStr ''time''),
                                      (''title'', JStr ''Potential segfault in the time crate''),
                                      (''cvss'', JNum (Fin (31 / 5)))]),
                               (''versions'', JObj [(''patched'', JArr [JStr ''>=0.2.23''])]),
                               (''package'', JObj [(''version'', JStr ''0.1.45'')])]])])]"

definition yarnReport :: string where
  \<open>yarnReport = ''{"type":"auditSummary","data":{"vulnerabilities":{"info":0,"low":0,"moderate":0,"high":0,"critical":1}}}''\<close>

definition yarnReportJson :: jsval where
  "yarnReportJson =
     JObj [(''type'', JStr ''auditSummary''),
           (''data'',
            JObj [(''vulnerabilities'',
                   JObj [(''info'', JNum (Fin 0)), (''low'', JNum (Fin 0)),
                         (''moderate'', JNum (Fin 0)), (''high'', JNum (Fin 0)),
                         (''critical'', JNum (Fin 1))])])]"

definition exampleParse :: "string \<Rightarrow> jsval option" where
  "exampleParse s =
     (if s = pnpmReport then Some pnpmReportJson
      else if s = npmReport then Some npmReportJson
      else if s = npmTotalOnly then Some npmTotalOnlyJson
      else if s = rustClean then Some rustCleanJson
      else if s = rustOne then Some rustOneJson
      else if s = yarnReport then Some yarnReportJson
      else None)"

text \<open>
  The files: \<^verbatim>\<open>/work/pnpm-app\<close> holds a \<^verbatim>\<open>pnpm-lock.yaml\<close> and \<^verbatim>\<open>/work/yarn-app\<close> a
  \<^verbatim>\<open>yarn.lock\<close>; nothing else exists, so \<^verbatim>\<open>/work/empty\<close> and \<^verbatim>\<open>/work/silent\<close> hold no
  manifest of any ecosystem.
\<close>

definition exampleFiles :: "string \<Rightarrow> bool" where
  "exampleFiles p = (p = ''/work/pnpm-app/pnpm-lock.yaml'' \<or> p = ''/work/yarn-app/yarn.lock'')"

definition joinSlash :: "string \<Rightarrow> string \<Rightarrow> string" where
  "joinSlash dir file = dir @ ''/'' @ file"

text \<open>
  The processes: every tool is installed (\<^verbatim>\<open>which\<close> succeeds). An audit tool that
  reports findings exits non-zero, so \<^verbatim>\<open>execSync\<close> throws with the report on the
  standard output. In \<^verbatim>\<open>/work/empty\<close>, \<^verbatim>\<open>cargo audit\<close> finds no lock file and prints an
  error message on the standard error. Every other command prints nothing.
\<close>

definition exampleExec :: "string \<Rightarrow> string option \<Rightarrow> nat option \<Rightarrow> ExecResult" where
  "exampleExec command cwd timeout =
     (if take 6 command = ''which '' then Returned (''/usr/bin/'' @ drop 6 command)
      else if command = ''pnpm audit --json'' \<and> cwd = Some ''/work/pnpm-app''
        then Threw (Some pnpmReport) (Some [])
      else if command = ''yarn audit --json'' \<and> cwd = Some ''/work/yarn-app''
        then Threw (Some yarnReport) (Some [])
      else if command = ''npm audit --json'' \<and> cwd = Some ''/work/a''
        then Threw (Some npmReport) (Some [])
      else if command = ''npm audit --json'' \<and> cwd = Some ''/work/d''
        then Threw (Some npmTotalOnly) (Some [])
      else if command = ''cargo audit --json'' \<and> cwd = Some ''/work/b''
        then Returned rustClean
      else if command = ''cargo audit --json'' \<and> cwd = Some ''/work/c''
        then Threw (Some rustOne) (Some [])
      else if command = ''cargo audit --json'' \<and> cwd = Some ''/work/empty''
        then Threw (Some []) (Some ''error: not found: Cargo.lock'')
      else Returned [])"

text \<open>The conversions of non-primitive values are not reached by the examples.\<close>

definition exampleEnv :: env where
  "exampleEnv =
     \<lparr>existsSync = exampleFiles, join = joinSlash, execSync = exampleExec,
      JSON_parse = exampleParse, parseFloatString = (\<lambda>s. NaN),
      toNumberOther = (\<lambda>v. Some NaN), toStringOther = (\<lambda>v. Some ''[object Object]'')\<rparr>"

text \<open>The same file system with manifests added to \<^verbatim>\<open>/work/silent\<close>.\<close>

definition manifestFiles :: "string \<Rightarrow> bool" where
  "manifestFiles p =
     (exampleFiles p \<or> p = ''/work/silent/package.json'' \<or> p = ''/work/silent/Cargo.toml'')"

section \<open>Notions used to state the properties of audit.ts\<close>

text \<open>Each of the four severity counts of a result is the number of entries of that
  severity in the result's own list.\<close>

definition countsFromList :: "AuditResult \<Rightarrow> bool" where
  "countsFromList r =
     (critical r = numOf (countSeverity ''critical'' (vulnerabilities r))
      \<and> high r = numOf (countSeverity ''high'' (vulnerabilities r))
      \<and> moderate r = numOf (countSeverity ''moderate'' (vulnerabilities r))
      \<and> low r = numOf (countSeverity ''low'' (vulnerabilities r)))"

text \<open>The summary \<^verbatim>\<open>data.metadata?.vulnerabilities || {}\<close> of a parsed npm or pnpm
  report.\<close>

definition nodeMetaOf :: "jsval \<Rightarrow> jsval" where
  "nodeMetaOf data = orElse (getOpt (getOpt data ''metadata'') ''vulnerabilities'') (JObj [])"

text \<open>Each severity count of a result is the summary's count when that is truthy, and
  the number of list entries of that severity otherwise.\<close>

definition countsPreferMeta :: "jsval \<Rightarrow> AuditResult \<Rightarrow> bool" where
  "countsPreferMeta meta r =
     (critical r = orElse (getOpt meta ''critical'') (numOf (countSeverity ''critical'' (vulnerabilities r)))
      \<and> high r = orElse (getOpt meta ''high'') (numOf (countSeverity ''high'' (vulnerabilities r)))
      \<and> moderate r = orElse (getOpt meta ''moderate'') (numOf (countSeverity ''moderate'' (vulnerabilities r)))
      \<and> low r = orElse (getOpt meta ''low'') (numOf (countSeverity ''low'' (vulnerabilities r))))"

text \<open>The command that the node adapter runs in a project directory.\<close>

definition nodeAuditCmd :: "env \<Rightarrow> string \<Rightarrow> string" where
  "nodeAuditCmd e projectPath =
     (if existsSync e (join e projectPath ''pnpm-lock.yaml'') then ''pnpm audit --json''
      else if existsSync e (join e projectPath ''yarn.lock'') then ''yarn audit --json''
      else ''npm audit --json'')"

text \<open>The node adapter reads the report only for npm and pnpm, that is, unless the
  lockfile detection selects yarn or bun.\<close>

definition nodeParses :: "env \<Rightarrow> string \<Rightarrow> bool" where
  "nodeParses e projectPath =
     (existsSync e (join e projectPath ''pnpm-lock.yaml'')
      \<or> (\<not> existsSync e (join e projectPath ''yarn.lock'')
          \<and> \<not> existsSync e (join e projectPath ''bun.lockb'')))"

text \<open>The list of findings that the node adapter builds from a parsed report; \<open>None\<close>
  when building it throws.\<close>

definition nodeVulnList :: "jsval \<Rightarrow> VulnerabilityInfo list option" where
  "nodeVulnList data =
     do {
       dataVulns \<leftarrow> get data ''vulnerabilities'';
       if truthy dataVulns then do { es \<leftarrow> entries dataVulns; those (map nodeVuln es) }
       else Some []
     }"

text \<open>The report that the node adapter reads in a project directory, with the list built
  from it: present when the package manager is npm or pnpm, the audit command yields
  output, the output is JSON and the list is built without an exception.\<close>

definition nodeReport :: "env \<Rightarrow> string \<Rightarrow> (jsval \<times> VulnerabilityInfo list) option" where
  "nodeReport e projectPath =
     (if nodeParses e projectPath then
        (case cmd e (nodeAuditCmd e projectPath) projectPath 60000 of
           None \<Rightarrow> None
         | Some raw \<Rightarrow>
             if raw = [] then None
             else do {
               data \<leftarrow> JSON_parse e raw;
               vulns \<leftarrow> nodeVulnList data;
               Some (data, vulns)
             })
      else None)"

text \<open>A result without findings: the list is empty and the four counts are zero.\<close>

definition emptyCounts :: "AuditResult \<Rightarrow> bool" where
  "emptyCounts r =
     (vulnerabilities r = [] \<and> critical r = numOf 0 \<and> high r = numOf 0
      \<and> moderate r = numOf 0 \<and> low r = numOf 0)"

text \<open>The command that the python adapter runs.\<close>

definition pythonAuditCmd :: "env \<Rightarrow> string" where
  "pythonAuditCmd e =
     (if cmdExists e ''pip-audit'' then ''pip-audit --format=json -r requirements.txt''
      else ''pip3 audit --format=json'')"

text \<open>A clean result: no finding, every count zero, and a null error.\<close>

definition clean :: "AuditResult \<Rightarrow> bool" where
  "clean r =
     (vulnerabilities r = [] \<and> totalVulnerabilities r = numOf 0
      \<and> critical r = numOf 0 \<and> high r = numOf 0 \<and> moderate r = numOf 0 \<and> low r = numOf 0
      \<and> error r = None)"





section \<open>Properties of the version comparator and the range matcher\<close>

lemma rangeLoop_all: "rangeLoop v ps = list_all (partHolds v) ps"
  by (induction ps) (auto simp: partHolds_def split: option.splits)


lemma compareFrom_find:
  "compareFrom pa pb i =
     (case find (\<lambda>j. at0 pa j \<noteq> at0 pb j) [i..<max (length pa) (length pb)] of
        None \<Rightarrow> 0 | Some j \<Rightarrow> at0 pa j - at0 pb j)"
proof (induction pa pb i rule: compareFrom.induct)
  case (1 pa pb i)
  show ?case
  proof (cases "i < max (length pa) (length pb)")
    case True
    then have u: "[i..<max (length pa) (length pb)] = i # [i + 1..<max (length pa) (length pb)]"
      by (simp add: upt_conv_Cons)
    show ?thesis
    proof (cases "at0 pa i = at0 pb i")
      case True
      with 1 \<open>i < max (length pa) (length pb)\<close> u show ?thesis
        by (subst compareFrom.simps) (simp add: Let_def)
    next
      case False
      with \<open>i < max (length pa) (length pb)\<close> u show ?thesis
        by (subst compareFrom.simps) (simp add: Let_def)
    qed
  next
    case False
    then have "[i..<max (length pa) (length pb)] = []"
      by (simp only: upt_eq_Nil_conv not_less simp_thms)
    with False show ?thesis
      by (subst compareFrom.simps) (simp only: if_False find.simps option.case)
  qed
qed

text \<open>
  Claim C3. For the range expression \<^verbatim>\<open>>=5.1.0 <5.6.2\<close>, \<^verbatim>\<open>isInRange\<close> is true of
  version 5.6.1 and false of version 5.6.2. In general the result is the conjunction
  over all white-space separated parts of the expression, and the constraint \<^verbatim>\<open><\<close>
  holds exactly when the comparison is strictly negative: the upper bound is exclusive.
\<close>

theorem isInRange_conjunction_exclusive_upper:
  "isInRange ''5.6.1'' ''>=5.1.0 <5.6.2''
   \<and> \<not> isInRange ''5.6.2'' ''>=5.1.0 <5.6.2''
   \<and> isInRange v r = list_all (partHolds v) (splitWs r)
   \<and> opHolds ''<'' c = (c < 0)"
proof -
  have a: "isInRange ''5.6.1'' ''>=5.1.0 <5.6.2''" by code_simp
  have b: "\<not> isInRange ''5.6.2'' ''>=5.1.0 <5.6.2''" by code_simp
  have c: "isInRange v r = list_all (partHolds v) (splitWs r)"
    by (simp add: isInRange_def rangeLoop_all)
  have d: "opHolds ''<'' c = (c < 0)" by (auto simp: opHolds_def)
  from a b c d show ?thesis by blast
qed

text \<open>
  Claim C4, as stated: \<^verbatim>\<open>compareVersions(a, b)\<close> is one of -1, 0, 1. It is not:
  \<^verbatim>\<open>compareVersions("5", "3")\<close> is the difference 2.
\<close>

theorem compareVersions_not_sign: "compareVersions ''5'' ''3'' \<notin> {- 1, 0, 1}"
proof -
  have "compareVersions ''5'' ''3'' = 2" by code_simp
  then show ?thesis by simp
qed

text \<open>
  Claim C4, amended. \<^verbatim>\<open>compareVersions(a, b)\<close> is \<open>0\<close> when the components of \<open>a\<close> and
  \<open>b\<close> agree at every position (missing ones counting as zero), and otherwise the
  difference \<open>va - vb\<close> of the components at the first position where they differ: an
  integer that is negative, zero or positive as \<open>a\<close> is below, equal to or above \<open>b\<close>,
  not only -1, 0 or 1.
\<close>

theorem compareVersions_first_difference:
  "compareVersions a b =
     (case firstDifference (parseVersion a) (parseVersion b) of
        None \<Rightarrow> 0
      | Some i \<Rightarrow> at0 (parseVersion a) i - at0 (parseVersion b) i)"
  by (simp add: compareVersions_def firstDifference_def compareFrom_find)

subsection \<open>Dotted versions\<close>

lemma splitAcc_nosep: "c \<notin> set xs \<Longrightarrow> splitAcc c acc xs = [rev acc @ xs]"
  by (induction xs arbitrary: acc) auto

lemma splitAcc_sep:
  "c \<notin> set xs \<Longrightarrow> splitAcc c acc (xs @ c # rest) = (rev acc @ xs) # splitAcc c [] rest"
  by (induction xs arbitrary: acc) auto

lemma digit_not_dot: "isDigit c \<Longrightarrow> c \<noteq> CHR ''.''"
  by (auto simp: isDigit_def)

lemma numeral_no_dot: "isNumeral s \<Longrightarrow> CHR ''.'' \<notin> set s"
  by (auto simp: isNumeral_def list_all_iff dest: digit_not_dot)

lemma split_joinDots:
  "comps \<noteq> [] \<Longrightarrow> list_all isNumeral comps \<Longrightarrow> split (CHR ''.'') (joinDots comps) = comps"
proof (induction comps rule: joinDots.induct)
  case 1
  then show ?case by simp
next
  case (2 c)
  then show ?case by (simp add: split_def splitAcc_nosep numeral_no_dot)
next
  case (3 c d cs)
  then have "split (CHR ''.'') (joinDots (d # cs)) = d # cs" by simp
  moreover from 3 have "CHR ''.'' \<notin> set c" by (simp add: numeral_no_dot)
  ultimately show ?case
    using splitAcc_sep [of "CHR ''.''" c "[]" "joinDots (d # cs)"] by (simp add: split_def)
qed

lemma joinDots_starts_with_digit:
  "comps \<noteq> [] \<Longrightarrow> list_all isNumeral comps \<Longrightarrow>
     \<exists>c r. joinDots comps = c # r \<and> isDigit c"
proof (induction comps rule: joinDots.induct)
  case 1
  then show ?case by simp
next
  case (2 c)
  then show ?case by (cases c) (auto simp: isNumeral_def)
next
  case (3 c d cs)
  then show ?case by (cases c) (auto simp: isNumeral_def)
qed

lemma strip_prefix_dotted:
  assumes "\<not> list_ex isDigit p" "comps \<noteq> []" "list_all isNumeral comps"
  shows "dropWhile (\<lambda>c. \<not> isDigit c) (p @ joinDots comps) = joinDots comps"
proof -
  from assms(1) have "dropWhile (\<lambda>c. \<not> isDigit c) (p @ joinDots comps)
      = dropWhile (\<lambda>c. \<not> isDigit c) (joinDots comps)"
    by (intro dropWhile_append2) (simp add: list_ex_iff)
  moreover from joinDots_starts_with_digit [OF assms(2,3)]
  have "dropWhile (\<lambda>c. \<not> isDigit c) (joinDots comps) = joinDots comps" by auto
  ultimately show ?thesis by simp
qed

lemma digit_not_space_or_sign:
  "isDigit c \<Longrightarrow> \<not> isSpace c \<and> c \<noteq> CHR ''-'' \<and> c \<noteq> CHR ''+''"
  by (auto simp: isDigit_def isSpace_def)

lemma parseIntOr0_numeral: "isNumeral s \<Longrightarrow> parseIntOr0 s = digitsVal s"
proof -
  assume n: "isNumeral s"
  then obtain c r where s: "s = c # r" and c: "isDigit c" by (cases s) (auto simp: isNumeral_def)
  from n have t: "takeWhile isDigit s = s" by (simp add: isNumeral_def list_all_iff)
  from c have "\<not> isSpace c" "c \<noteq> CHR ''-''" "c \<noteq> CHR ''+''"
    using digit_not_space_or_sign by blast+
  with s t show ?thesis
    by (simp add: parseIntOr0_def parseInt10_def)
qed

lemma parseVersion_dotted:
  assumes "\<not> list_ex isDigit p" "comps \<noteq> []" "list_all isNumeral comps"
  shows "parseVersion (p @ joinDots comps) = map digitsVal comps"
proof -
  have "parseVersion (p @ joinDots comps) = map parseIntOr0 comps"
    using assms by (simp add: parseVersion_def strip_prefix_dotted split_joinDots)
  also from assms(3) have "\<dots> = map digitsVal comps"
    by (simp add: list_all_iff parseIntOr0_numeral)
  finally show ?thesis .
qed

text \<open>
  Claim C5. When the numeric components of \<open>a\<close> and \<open>b\<close>, read after the leading
  non-numeric characters are stripped, are equal position by position, missing trailing
  components counting as zero, \<^verbatim>\<open>compareVersions(a, b)\<close> is \<open>0\<close>. In particular, for
  dotted versions written out as a prefix without digits followed by numerals separated
  by dots, the components are the decimal values of the numerals; and
  \<^verbatim>\<open>compareVersions("5.1", "5.1.0")\<close> is \<open>0\<close>.
\<close>

theorem compareVersions_equal_components:
  "(componentsEqual a b \<longrightarrow> compareVersions a b = 0)
   \<and> (\<not> list_ex isDigit p \<and> \<not> list_ex isDigit q \<and> as \<noteq> [] \<and> bs \<noteq> []
        \<and> list_all isNumeral as \<and> list_all isNumeral bs
        \<and> paddedEqual (map digitsVal as) (map digitsVal bs)
      \<longrightarrow> compareVersions (p @ joinDots as) (q @ joinDots bs) = 0)
   \<and> compareVersions ''5.1'' ''5.1.0'' = 0"
proof -
  have ex: "compareVersions ''5.1'' ''5.1.0'' = 0" by code_simp
  have g: "compareVersions a b = 0" if h: "componentsEqual a b" for a b
  proof -
    from h have "find (\<lambda>j. at0 (parseVersion a) j \<noteq> at0 (parseVersion b) j)
        [0..<max (length (parseVersion a)) (length (parseVersion b))] = None"
      by (simp add: componentsEqual_def paddedEqual_def find_None_iff list_all_iff)
    then show ?thesis by (simp add: compareVersions_def compareFrom_find)
  qed
  have d: "compareVersions (p @ joinDots as) (q @ joinDots bs) = 0"
    if "\<not> list_ex isDigit p" "\<not> list_ex isDigit q" "as \<noteq> []" "bs \<noteq> []"
      "list_all isNumeral as" "list_all isNumeral bs"
      "paddedEqual (map digitsVal as) (map digitsVal bs)"
  proof -
    from that have "componentsEqual (p @ joinDots as) (q @ joinDots bs)"
      by (simp add: componentsEqual_def parseVersion_dotted)
    then show ?thesis by (rule g)
  qed
  from ex g [of a b] d show ?thesis by blast
qed

theorem compareVersions_equal_components_witness:
  "componentsEqual ''v5.1'' ''5.1.0.0'' \<and> compareVersions ''v5.1'' ''5.1.0.0'' = 0
   \<and> \<not> list_ex isDigit ''v'' \<and> \<not> list_ex isDigit ''~'' \<and> [''5'', ''01''] \<noteq> []
   \<and> [''5'', ''1'', ''0''] \<noteq> []
   \<and> list_all isNumeral [''5'', ''01''] \<and> list_all isNumeral [''5'', ''1'', ''0'']
   \<and> paddedEqual (map digitsVal [''5'', ''01'']) (map digitsVal [''5'', ''1'', ''0''])
   \<and> compareVersions (''v'' @ joinDots [''5'', ''01'']) (''~'' @ joinDots [''5'', ''1'', ''0'']) = 0"
proof -
  have h: "componentsEqual ''v5.1'' ''5.1.0.0''" by code_simp
  have k: "\<not> list_ex isDigit ''v''" "\<not> list_ex isDigit ''~''" "[''5'', ''01''] \<noteq> []"
    "[''5'', ''1'', ''0''] \<noteq> []"
    "list_all isNumeral [''5'', ''01'']" "list_all isNumeral [''5'', ''1'', ''0'']"
    "paddedEqual (map digitsVal [''5'', ''01'']) (map digitsVal [''5'', ''1'', ''0''])"
    by code_simp+
  from compareVersions_equal_components
    [of "''v5.1''" "''5.1.0.0''" "''v''" "''~''" "[''5'', ''01'']" "[''5'', ''1'', ''0'']"] h k
  show ?thesis by blast
qed

subsection \<open>Skipped tokens\<close>










section \<open>Properties of the catalogue lookup\<close>

lemma cveLoop_set:
  "set (cveLoop installed advs) =
     {\<lparr>advisory = adv, installedVersion = v, isAffected = True\<rparr> | adv v.
        adv \<in> set advs \<and> map_of installed (cve_package adv) = Some v \<and> v \<noteq> []
        \<and> isInRange v (affectedVersions adv)}"
  by (induction advs) (auto split: option.splits)

text \<open>
  Claim C2, as stated: a match is emitted exactly when the package is in the map and
  \<^verbatim>\<open>isInRange\<close> holds of its version. It fails for a package whose version is the
  empty string: \<^verbatim>\<open>express\<close> is in the map, \<^verbatim>\<open>isInRange("", "<4.19.2")\<close> is true, and
  no match is emitted.
\<close>

theorem checkProjectCves_empty_version_skipped:
  "cve_package (CVE_DATABASE ! 8) = ''express''
   \<and> map_of (emptySpecifierProject ''/p'') (cve_package (CVE_DATABASE ! 8)) = Some ''''
   \<and> isInRange '''' (affectedVersions (CVE_DATABASE ! 8))
   \<and> affected (checkProjectCves emptySpecifierProject ''/p'' ''p'') = []"
  by code_simp

text \<open>
  Claim C2, amended. For every installed-version map and every advisory of the
  catalogue, \<^verbatim>\<open>checkProjectCves\<close> emits the match of that advisory with the installed
  version exactly when the advisory's package name is a key of the map, its version is
  not the empty string and \<^verbatim>\<open>isInRange\<close> holds of the version and the advisory's range;
  no other match is emitted.
\<close>

theorem checkProjectCves_matches:
  "set (affected (checkProjectCves getInstalledVersions projectPath projectName)) =
     {\<lparr>advisory = adv, installedVersion = v, isAffected = True\<rparr> | adv v.
        adv \<in> set CVE_DATABASE
        \<and> map_of (getInstalledVersions projectPath) (cve_package adv) = Some v
        \<and> v \<noteq> [] \<and> isInRange v (affectedVersions adv)}"
  by (simp add: checkProjectCves_def Let_def cveLoop_set)

section \<open>Properties of the audit adapters\<close>

subsection \<open>The example environment, evaluated\<close>

lemma trim_reports:
  "trim pnpmReport = pnpmReport" "trim npmReport = npmReport" "trim npmTotalOnly = npmTotalOnly"
  "trim rustClean = rustClean" "trim rustOne = rustOne" "trim yarnReport = yarnReport"
  by (simp_all add: trim_def isSpace_def pnpmReport_def npmReport_def npmTotalOnly_def
        rustClean_def rustOne_def yarnReport_def)

lemma reports_nonempty:
  "pnpmReport \<noteq> []" "npmReport \<noteq> []" "npmTotalOnly \<noteq> []"
  "rustClean \<noteq> []" "rustOne \<noteq> []" "yarnReport \<noteq> []"
  by (simp_all add: pnpmReport_def npmReport_def npmTotalOnly_def
        rustClean_def rustOne_def yarnReport_def)

lemma exampleParse_reports:
  "exampleParse pnpmReport = Some pnpmReportJson"
  "exampleParse npmReport = Some npmReportJson"
  "exampleParse npmTotalOnly = Some npmTotalOnlyJson"
  "exampleParse rustClean = Some rustCleanJson"
  "exampleParse rustOne = Some rustOneJson"
  "exampleParse yarnReport = Some yarnReportJson"
  by (simp_all add: exampleParse_def pnpmReport_def npmReport_def npmTotalOnly_def
        rustClean_def rustOne_def yarnReport_def)

lemma exampleParse_error_text: "exampleParse ''error: not found: Cargo.lock'' = None"
  by (simp add: exampleParse_def pnpmReport_def npmReport_def npmTotalOnly_def
        rustClean_def rustOne_def yarnReport_def)

lemma exampleEnv_sel:
  "existsSync exampleEnv = exampleFiles" "join exampleEnv = joinSlash"
  "execSync exampleEnv = exampleExec" "JSON_parse exampleEnv = exampleParse"
  by (simp_all add: exampleEnv_def)

lemma example_cmdExists:
  "cmdExists exampleEnv ''cargo-audit''" "cmdExists exampleEnv ''pip-audit''"
  "cmdExists exampleEnv ''composer''" "cmdExists exampleEnv ''govulncheck''"
  by (simp_all add: cmdExists_def exampleEnv_sel exampleExec_def)

lemma example_cmd:
  "cmd exampleEnv ''pnpm audit --json'' ''/work/pnpm-app'' 60000 = Some pnpmReport"
  "cmd exampleEnv ''yarn audit --json'' ''/work/yarn-app'' 60000 = Some yarnReport"
  "cmd exampleEnv ''npm audit --json'' ''/work/a'' 60000 = Some npmReport"
  "cmd exampleEnv ''npm audit --json'' ''/work/d'' 60000 = Some npmTotalOnly"
  "cmd exampleEnv ''cargo audit --json'' ''/work/b'' 60000 = Some rustClean"
  "cmd exampleEnv ''cargo audit --json'' ''/work/c'' 60000 = Some rustOne"
  "cmd exampleEnv ''cargo audit --json'' ''/work/empty'' 60000 = Some ''error: not found: Cargo.lock''"
  by (simp_all add: cmd_def exampleEnv_sel exampleExec_def truthyStr_def trim_reports
        reports_nonempty) (simp_all add: trim_def isSpace_def)

lemma example_cmd_silent:
  "cmd exampleEnv ''npm audit --json'' ''/work/silent'' 60000 = Some []"
  "cmd exampleEnv ''cargo audit --json'' ''/work/silent'' 60000 = Some []"
  "cmd exampleEnv ''pip-audit --format=json -r requirements.txt'' ''/work/silent'' 60000 = Some []"
  "cmd exampleEnv ''composer audit --format=json'' ''/work/silent'' 60000 = Some []"
  "cmd exampleEnv ''govulncheck -json ./...'' ''/work/silent'' 60000 = Some []"
  by (simp_all add: cmd_def exampleEnv_sel exampleExec_def trim_def)

lemma example_files:
  "exampleFiles (joinSlash ''/work/pnpm-app'' ''pnpm-lock.yaml'')"
  "exampleFiles (joinSlash ''/work/yarn-app'' ''yarn.lock'')"
  "\<not> exampleFiles (joinSlash ''/work/yarn-app'' ''pnpm-lock.yaml'')"
  "\<not> exampleFiles (joinSlash ''/work/a'' f)"
  "\<not> exampleFiles (joinSlash ''/work/d'' f)"
  "\<not> exampleFiles (joinSlash ''/work/empty'' f)"
  "\<not> exampleFiles (joinSlash ''/work/silent'' f)"
  by (simp_all add: exampleFiles_def joinSlash_def)



lemma example_audit_c:
  "auditProject exampleEnv ''/work/c'' ''c'' ''rust'' =
     \<lparr>project = ''c'', language = ''rust'',
      vulnerabilities =
        [\<lparr>package = JStr ''time'', severity = JStr ''moderate'',
          title = JStr ''Potential segfault in the time crate'', url = JStr [],
          fixVersion = JStr ''>=0.2.23'', currentVersion = JStr ''0.1.45''\<rparr>],
      totalVulnerabilities = numOf 1, critical = numOf 0, high = numOf 0,
      moderate = numOf 1, low = numOf 0, auditCommand = ''cargo audit --json'', error = None\<rparr>"
  by (simp add: auditProject_def auditRust_def exampleEnv_sel example_cmd example_cmdExists
        reports_nonempty rustParse_def exampleParse_reports rustOneJson_def rustVuln_def
        mapRustSeverity_def orElse_def getOpt_def idx0Opt_def countedResult_def
        countSeverity_def)


lemma example_audit_pnpm:
  "auditProject exampleEnv ''/work/pnpm-app'' ''p'' ''node'' =
     \<lparr>project = ''p'', language = ''node'', vulnerabilities = [],
      totalVulnerabilities = numOf 0, critical = numOf 0, high = JNum (Fin 1),
      moderate = numOf 0, low = numOf 0, auditCommand = ''pnpm audit --json'', error = None\<rparr>"
  by (simp add: auditProject_def auditNode_def exampleEnv_sel example_files example_cmd
        reports_nonempty nodeParse_def exampleParse_reports pnpmReportJson_def
        orElse_def getOpt_def countSeverity_def numOf_def)

subsection \<open>Severity counts and the list of findings\<close>

lemma those_map_elems:
  "those (map f xs) = Some ys \<Longrightarrow> y \<in> set ys \<Longrightarrow> \<exists>x\<in>set xs. f x = Some y"
  by (induction xs arbitrary: ys) (auto split: option.splits)

lemma countsFromList_empty: "countsFromList (emptyResult p l c err)"
  by (simp add: countsFromList_def emptyResult_def countSeverity_def)

lemma countsFromList_counted: "countsFromList (countedResult p l c vs)"
  by (simp add: countsFromList_def countedResult_def)

lemma countsFromList_high:
  assumes "\<And>v. v \<in> set vs \<Longrightarrow> severity v = JStr ''high''"
  shows "countsFromList (highResult p l c vs)"
proof -
  have h: "filter (\<lambda>v. severity v = JStr ''high'') vs = vs"
    using assms by (simp add: filter_id_conv)
  have o: "filter (\<lambda>v. severity v = JStr s) vs = []" if "s \<noteq> ''high''" for s
    using assms that by (auto simp: filter_empty_conv)
  show ?thesis
    by (simp add: countsFromList_def highResult_def countSeverity_def h o)
qed

lemma phpVuln_high: "phpVuln pkg adv = Some v \<Longrightarrow> severity v = JStr ''high''"
  by (auto simp: phpVuln_def split: Option.bind_splits)

lemma phpEntry_high: "phpEntry en = Some vs \<Longrightarrow> v \<in> set vs \<Longrightarrow> severity v = JStr ''high''"
  by (cases en) (auto simp: phpEntry_def dest!: those_map_elems dest: phpVuln_high)

lemma phpParse_counts: "phpParse e n raw = Some r \<Longrightarrow> countsFromList r"
proof -
  assume a: "phpParse e n raw = Some r"
  then obtain es perPkg where p: "those (map phpEntry es) = Some perPkg"
    and r: "r = highResult n ''php'' ''composer audit --format=json'' (concat perPkg)"
    by (auto simp: phpParse_def split: Option.bind_splits)
  have "severity v = JStr ''high''" if "v \<in> set (concat perPkg)" for v
  proof -
    from that obtain vs where vs: "vs \<in> set perPkg" "v \<in> set vs" by auto
    from those_map_elems [OF p vs(1)] obtain en where "phpEntry en = Some vs" by blast
    then show ?thesis using vs(2) by (rule phpEntry_high)
  qed
  then have "countsFromList (highResult n ''php'' ''composer audit --format=json'' (concat perPkg))"
    by (rule countsFromList_high)
  with r show ?thesis by simp
qed

lemma goEntry_high: "goEntry e line = Some vs \<Longrightarrow> v \<in> set vs \<Longrightarrow> severity v = JStr ''high''"
  by (auto simp: goEntry_def split: Option.bind_splits if_splits)

lemma goLine_high: "v \<in> set (goLine e line) \<Longrightarrow> severity v = JStr ''high''"
  by (cases "goEntry e line") (auto simp: goLine_def dest: goEntry_high)

lemma goVulns_high: "v \<in> set (goVulns e raw) \<Longrightarrow> severity v = JStr ''high''"
  by (auto simp: goVulns_def dest: goLine_high)

lemma rustParse_counts: "rustParse e n raw = Some r \<Longrightarrow> countsFromList r"
  by (auto simp: rustParse_def countsFromList_counted split: Option.bind_splits)

lemma pythonParse_counts: "pythonParse e n c raw = Some r \<Longrightarrow> countsFromList r"
  by (auto simp: pythonParse_def countsFromList_counted split: Option.bind_splits)

lemma auditRust_counts: "countsFromList (auditRust e p n)"
  by (simp add: auditRust_def countsFromList_empty rustParse_counts split: option.splits)

lemma auditPython_counts: "countsFromList (auditPython e p n)"
  by (simp add: auditPython_def Let_def countsFromList_empty pythonParse_counts
      split: option.splits)

lemma auditPhp_counts: "countsFromList (auditPhp e p n)"
  by (simp add: auditPhp_def countsFromList_empty phpParse_counts split: option.splits)

lemma auditGo_counts: "countsFromList (auditGo e p n)"
  by (simp add: auditGo_def countsFromList_empty countsFromList_high goVulns_high
      split: option.splits)

lemma auditNode_alt:
  "auditNode e p n =
     (case cmd e (nodeAuditCmd e p) p 60000 of
        None \<Rightarrow> emptyResult n ''node'' (nodeAuditCmd e p) (Some ''Audit command failed or timed out.'')
      | Some raw \<Rightarrow>
          if raw = [] then
            emptyResult n ''node'' (nodeAuditCmd e p) (Some ''Audit command failed or timed out.'')
          else if existsSync e (join e p ''pnpm-lock.yaml'')
                  \<or> (\<not> existsSync e (join e p ''yarn.lock'') \<and> \<not> existsSync e (join e p ''bun.lockb''))
          then (case nodeParse e n (nodeAuditCmd e p) raw of
                  None \<Rightarrow> emptyResult n ''node'' (nodeAuditCmd e p) (Some ''Failed to parse audit output.'')
                | Some r \<Rightarrow> r)
          else emptyResult n ''node'' (nodeAuditCmd e p) None)"
  by (cases "existsSync e (join e p ''pnpm-lock.yaml'')";
      cases "existsSync e (join e p ''yarn.lock'')";
      cases "existsSync e (join e p ''bun.lockb'')")
     (simp_all add: auditNode_def nodeAuditCmd_def Let_def split: option.splits)

lemma get_defined: "get v p = Some x \<Longrightarrow> get v q = Some (getOpt v q)"
  by (cases v) (simp_all add: getOpt_def)

lemma get_truthy: "truthy v \<Longrightarrow> get v q = Some (getOpt v q)"
  by (cases v) (simp_all add: getOpt_def)

lemma truthy_orElse: "truthy b \<Longrightarrow> truthy (orElse a b)"
  by (simp add: orElse_def)

lemma nodeMetaOf_truthy: "truthy (nodeMetaOf data)"
  by (simp add: nodeMetaOf_def truthy_orElse)

lemma nodeParse_read:
  assumes p: "JSON_parse e raw = Some data" and l: "nodeVulnList data = Some vulns"
  shows "nodeParse e n c raw =
     Some \<lparr>project = n, language = ''node'', vulnerabilities = vulns,
           totalVulnerabilities = orElse (getOpt (nodeMetaOf data) ''total'') (numOf (length vulns)),
           critical = orElse (getOpt (nodeMetaOf data) ''critical'')
                        (numOf (countSeverity ''critical'' vulns)),
           high = orElse (getOpt (nodeMetaOf data) ''high'') (numOf (countSeverity ''high'' vulns)),
           moderate = orElse (getOpt (nodeMetaOf data) ''moderate'')
                        (numOf (countSeverity ''moderate'' vulns)),
           low = orElse (getOpt (nodeMetaOf data) ''low'') (numOf (countSeverity ''low'' vulns)),
           auditCommand = c, error = None\<rparr>"
proof -
  from l obtain dv where dv: "get data ''vulnerabilities'' = Some dv"
    by (auto simp: nodeVulnList_def split: Option.bind_splits)
  from l dv have vs: "(if truthy dv then entries dv \<bind> (\<lambda>es. those (map nodeVuln es)) else Some [])
      = Some vulns"
    by (simp add: nodeVulnList_def)
  from get_defined [OF dv] have md: "get data ''metadata'' = Some (getOpt data ''metadata'')" .
  have meta: "orElse (getOpt (getOpt data ''metadata'') ''vulnerabilities'') (JObj []) = nodeMetaOf data"
    by (simp add: nodeMetaOf_def)
  have g: "get (nodeMetaOf data) q = Some (getOpt (nodeMetaOf data) q)" for q
    by (rule get_truthy) (rule nodeMetaOf_truthy)
  show ?thesis
    unfolding nodeParse_def p by (simp add: dv vs md meta g Let_def)
qed

lemma nodeParse_unread:
  assumes "JSON_parse e raw = None \<or> (\<exists>data. JSON_parse e raw = Some data \<and> nodeVulnList data = None)"
  shows "nodeParse e n c raw = None"
proof (cases "JSON_parse e raw")
  case None
  then show ?thesis by (simp add: nodeParse_def)
next
  case (Some data)
  with assms have l: "nodeVulnList data = None" by simp
  show ?thesis
  proof (cases "get data ''vulnerabilities''")
    case None
    with Some show ?thesis by (simp add: nodeParse_def)
  next
    case dv: (Some dv)
    with l have "(if truthy dv then entries dv \<bind> (\<lambda>es. those (map nodeVuln es)) else Some [])
        = None"
      by (simp add: nodeVulnList_def)
    with Some dv show ?thesis unfolding nodeParse_def by simp
  qed
qed

lemma emptyCounts_empty: "emptyCounts (emptyResult p l c err)"
  by (simp add: emptyCounts_def emptyResult_def)

lemma auditNode_read:
  assumes "nodeReport e p = Some (data, vulns)"
  shows "vulnerabilities (auditNode e p n) = vulns
         \<and> countsPreferMeta (nodeMetaOf data) (auditNode e p n)"
proof -
  from assms have np: "nodeParses e p" by (simp add: nodeReport_def split: if_splits)
  with assms obtain raw where raw: "cmd e (nodeAuditCmd e p) p 60000 = Some raw" "raw \<noteq> []"
    and pd: "JSON_parse e raw = Some data" and l: "nodeVulnList data = Some vulns"
    by (auto simp: nodeReport_def split: option.splits if_splits Option.bind_splits)
  from np raw nodeParse_read [OF pd l, of n "nodeAuditCmd e p"] show ?thesis
    by (simp add: auditNode_alt nodeParses_def countsPreferMeta_def)
qed

lemma auditNode_unread:
  assumes "nodeReport e p = None"
  shows "emptyCounts (auditNode e p n)"
proof (cases "nodeParses e p")
  case False
  then have c: "(existsSync e (join e p ''pnpm-lock.yaml'')
      \<or> (\<not> existsSync e (join e p ''yarn.lock'') \<and> \<not> existsSync e (join e p ''bun.lockb'')))
      = False"
    by (simp add: nodeParses_def)
  show ?thesis
    by (simp add: auditNode_alt c emptyCounts_empty split: option.splits)
next
  case True
  show ?thesis
  proof (cases "cmd e (nodeAuditCmd e p) p 60000")
    case None
    then show ?thesis by (simp add: auditNode_alt emptyCounts_empty)
  next
    case (Some raw)
    show ?thesis
    proof (cases "raw = []")
      case True
      with Some show ?thesis by (simp add: auditNode_alt emptyCounts_empty)
    next
      case False
      with assms True Some
      have "JSON_parse e raw = None
          \<or> (\<exists>data. JSON_parse e raw = Some data \<and> nodeVulnList data = None)"
        by (auto simp: nodeReport_def split: Option.bind_splits)
      then have "nodeParse e n (nodeAuditCmd e p) raw = None" by (rule nodeParse_unread)
      with Some False show ?thesis by (simp add: auditNode_alt emptyCounts_empty)
    qed
  qed
qed

text \<open>
  Claim C1, as stated: each severity count equals the number of list entries of that
  severity. A pnpm report has \<^verbatim>\<open>advisories\<close> and a metadata summary but no
  \<^verbatim>\<open>vulnerabilities\<close> map: the node adapter returns an empty list with \<open>high = 1\<close>,
  the summary's count.
\<close>

theorem auditNode_counts_drift:
  "high (auditProject exampleEnv ''/work/pnpm-app'' ''p'' ''node'') = JNum (Fin 1)
   \<and> countSeverity ''high'' (vulnerabilities (auditProject exampleEnv ''/work/pnpm-app'' ''p'' ''node'')) = 0
   \<and> \<not> countsFromList (auditProject exampleEnv ''/work/pnpm-app'' ''p'' ''node'')"
  by (simp add: example_audit_pnpm countsFromList_def countSeverity_def numOf_def)

text \<open>
  Claim C1, amended. For every result of the rust, python, php and go adapters, and of
  an unsupported language, each of the four severity counts equals the number of
  entries of that severity in the result's list. The node adapter reads the report only
  when the package manager is npm or pnpm; when it reads one (the command yields output,
  the output is JSON, the list is built without an exception), the list of the result is
  the list built from the report and each count is the count of that severity in the
  report's own summary (\<^verbatim>\<open>metadata.vulnerabilities\<close>) when that is truthy, and the number
  of list entries of that severity otherwise. In every other case (yarn or bun, no
  output, a report that fails to parse) the list of the node result is empty and every
  count is zero.
\<close>

theorem auditResult_counts:
  "(lang \<noteq> ''node'' \<longrightarrow> countsFromList (auditProject e projectPath projectName lang))
   \<and> (nodeReport e projectPath = Some (data, vulns) \<longrightarrow>
        vulnerabilities (auditProject e projectPath projectName ''node'') = vulns
        \<and> countsPreferMeta (nodeMetaOf data) (auditProject e projectPath projectName ''node''))
   \<and> (nodeReport e projectPath = None \<longrightarrow>
        emptyCounts (auditProject e projectPath projectName ''node''))"
proof -
  have a: "countsFromList (auditProject e projectPath projectName lang)" if "lang \<noteq> ''node''"
    using that by (simp add: auditProject_def auditRust_counts auditPython_counts
        auditPhp_counts auditGo_counts countsFromList_empty)
  have b: "auditProject e projectPath projectName ''node'' = auditNode e projectPath projectName"
    by (simp add: auditProject_def)
  from a auditNode_read [of e projectPath data vulns projectName]
    auditNode_unread [of e projectPath projectName]
  show ?thesis unfolding b by blast
qed

theorem auditResult_counts_witness:
  "''rust'' \<noteq> ''node''
   \<and> countsFromList (auditProject exampleEnv ''/work/c'' ''c'' ''rust'')
   \<and> moderate (auditProject exampleEnv ''/work/c'' ''c'' ''rust'') = numOf 1
   \<and> length (vulnerabilities (auditProject exampleEnv ''/work/c'' ''c'' ''rust'')) = 1
   \<and> nodeReport exampleEnv ''/work/pnpm-app'' = Some (pnpmReportJson, [])
   \<and> vulnerabilities (auditProject exampleEnv ''/work/pnpm-app'' ''p'' ''node'') = []
   \<and> high (auditProject exampleEnv ''/work/pnpm-app'' ''p'' ''node'') = JNum (Fin 1)
   \<and> critical (auditProject exampleEnv ''/work/pnpm-app'' ''p'' ''node'') = numOf 0
   \<and> nodeReport exampleEnv ''/work/yarn-app'' = None
   \<and> emptyCounts (auditProject exampleEnv ''/work/yarn-app'' ''y'' ''node'')"
proof -
  have h: "''rust'' \<noteq> ''node''" by simp
  have v: "moderate (auditProject exampleEnv ''/work/c'' ''c'' ''rust'') = numOf 1"
    "length (vulnerabilities (auditProject exampleEnv ''/work/c'' ''c'' ''rust'')) = 1"
    by (simp_all add: example_audit_c)
  have p: "nodeReport exampleEnv ''/work/pnpm-app'' = Some (pnpmReportJson, [])"
    by (simp add: nodeReport_def nodeParses_def nodeAuditCmd_def exampleEnv_sel example_files
          example_cmd reports_nonempty exampleParse_reports nodeVulnList_def pnpmReportJson_def)
  have y: "nodeReport exampleEnv ''/work/yarn-app'' = None"
    by (simp add: nodeReport_def nodeParses_def exampleEnv_sel example_files)
  have m: "getOpt (nodeMetaOf pnpmReportJson) ''high'' = JNum (Fin 1)"
    "getOpt (nodeMetaOf pnpmReportJson) ''critical'' = JNum (Fin 0)"
    by (simp_all add: nodeMetaOf_def pnpmReportJson_def getOpt_def orElse_def)
  from auditResult_counts [of "''rust''" exampleEnv "''/work/pnpm-app''" "''p''" pnpmReportJson "[]"] p
  have q: "vulnerabilities (auditProject exampleEnv ''/work/pnpm-app'' ''p'' ''node'') = []"
    "countsPreferMeta (nodeMetaOf pnpmReportJson) (auditProject exampleEnv ''/work/pnpm-app'' ''p'' ''node'')"
    by blast+
  from q have c: "high (auditProject exampleEnv ''/work/pnpm-app'' ''p'' ''node'') = JNum (Fin 1)"
    "critical (auditProject exampleEnv ''/work/pnpm-app'' ''p'' ''node'') = numOf 0"
    by (simp_all add: countsPreferMeta_def m orElse_def countSeverity_def numOf_def)
  from auditResult_counts [of "''rust''" exampleEnv "''/work/c''" "''c''"] h
  have r: "countsFromList (auditProject exampleEnv ''/work/c'' ''c'' ''rust'')" by blast
  from auditResult_counts [of "''rust''" exampleEnv "''/work/yarn-app''" "''y''"] y
  have e: "emptyCounts (auditProject exampleEnv ''/work/yarn-app'' ''y'' ''node'')" by blast
  from h r v p q(1) c y e show ?thesis by blast
qed

subsection \<open>The filter of the aggregator\<close>































subsection \<open>The severity of a rust advisory\<close>

lemma mapRustSeverity_thresholds:
  "q \<noteq> 0 \<Longrightarrow> mapRustSeverity e (JNum (Fin q)) =
     Some (if 9 \<le> q then ''critical'' else if 7 \<le> q then ''high''
           else if 4 \<le> q then ''moderate'' else ''low'')"
  by (simp add: mapRustSeverity_def)

lemma mapRustSeverity_absent:
  "mapRustSeverity e JUndefined = Some ''moderate''"
  "mapRustSeverity e JNull = Some ''moderate''"
  by (simp_all add: mapRustSeverity_def)

text \<open>
  Claim C8: a score below 4 maps to low. The code maps the score \<open>0\<close> to moderate: the
  test \<^verbatim>\<open>!cvss\<close>, meant for an absent score, is also true of the number zero. Every
  other finite score follows the thresholds of the claim (\<open>mapRustSeverity_thresholds\<close>),
  and an absent score maps to moderate (\<open>mapRustSeverity_absent\<close>).
\<close>

theorem mapRustSeverity_zero_score:
  "mapRustSeverity e (JNum (Fin 0)) = Some ''moderate''"
  by (simp add: mapRustSeverity_def)

subsection \<open>Projects without a manifest\<close>

text \<open>No function of the adapters other than the lockfile detection of \<^verbatim>\<open>auditNode\<close>
  consults the file system.\<close>

lemma env_files_sel:
  "join (e\<lparr>existsSync := files\<rparr>) = join e"
  "execSync (e\<lparr>existsSync := files\<rparr>) = execSync e"
  "JSON_parse (e\<lparr>existsSync := files\<rparr>) = JSON_parse e"
  "parseFloatString (e\<lparr>existsSync := files\<rparr>) = parseFloatString e"
  "toNumberOther (e\<lparr>existsSync := files\<rparr>) = toNumberOther e"
  "toStringOther (e\<lparr>existsSync := files\<rparr>) = toStringOther e"
  by simp_all

lemma cmd_files: "cmd (e\<lparr>existsSync := files\<rparr>) = cmd e"
  by (intro ext) (unfold cmd_def env_files_sel, rule refl)

lemma cmdExists_files: "cmdExists (e\<lparr>existsSync := files\<rparr>) = cmdExists e"
  by (intro ext) (unfold cmdExists_def env_files_sel, rule refl)

lemma ToString_files: "ToString (e\<lparr>existsSync := files\<rparr>) = ToString e"
  by (intro ext) (unfold ToString_def env_files_sel, rule refl)

lemma gt0_files: "gt0 (e\<lparr>existsSync := files\<rparr>) = gt0 e"
  by (intro ext) (unfold gt0_def ToNumber_def env_files_sel, rule refl)

lemma mapRustSeverity_files: "mapRustSeverity (e\<lparr>existsSync := files\<rparr>) = mapRustSeverity e"
  by (intro ext) (unfold mapRustSeverity_def parseFloat_def ToString_files env_files_sel, rule refl)

lemma rustVuln_files: "rustVuln (e\<lparr>existsSync := files\<rparr>) = rustVuln e"
  by (intro ext) (unfold rustVuln_def mapRustSeverity_files, rule refl)

lemma rustParse_files: "rustParse (e\<lparr>existsSync := files\<rparr>) = rustParse e"
  by (intro ext) (unfold rustParse_def rustVuln_files env_files_sel, rule refl)

lemma pyKeep_files: "pyKeep (e\<lparr>existsSync := files\<rparr>) = pyKeep e"
  by (intro ext) (unfold pyKeep_def gt0_files, rule refl)

lemma pyVuln_files: "pyVuln (e\<lparr>existsSync := files\<rparr>) = pyVuln e"
  by (intro ext) (unfold pyVuln_def ToString_files, rule refl)

lemma pyDep_files: "pyDep (e\<lparr>existsSync := files\<rparr>) = pyDep e"
  by (intro ext) (unfold pyDep_def pyVuln_files, rule refl)

lemma pythonParse_files: "pythonParse (e\<lparr>existsSync := files\<rparr>) = pythonParse e"
  by (intro ext) (unfold pythonParse_def pyKeep_files pyDep_files env_files_sel, rule refl)

lemma phpParse_files: "phpParse (e\<lparr>existsSync := files\<rparr>) = phpParse e"
  by (intro ext) (unfold phpParse_def env_files_sel, rule refl)

lemma goEntry_files: "goEntry (e\<lparr>existsSync := files\<rparr>) = goEntry e"
  by (intro ext) (unfold goEntry_def ToString_files env_files_sel, rule refl)

lemma goLine_files: "goLine (e\<lparr>existsSync := files\<rparr>) = goLine e"
  by (intro ext) (unfold goLine_def goEntry_files, rule refl)

lemma goVulns_files: "goVulns (e\<lparr>existsSync := files\<rparr>) = goVulns e"
  by (intro ext) (unfold goVulns_def goLine_files, rule refl)

lemma nodeParse_files: "nodeParse (e\<lparr>existsSync := files\<rparr>) = nodeParse e"
  by (intro ext) (unfold nodeParse_def env_files_sel, rule refl)

lemma auditRust_files: "auditRust (e\<lparr>existsSync := files\<rparr>) = auditRust e"
  by (intro ext) (unfold auditRust_def cmd_files cmdExists_files rustParse_files, rule refl)

lemma auditPython_files: "auditPython (e\<lparr>existsSync := files\<rparr>) = auditPython e"
  by (intro ext) (unfold auditPython_def cmd_files cmdExists_files pythonParse_files, rule refl)

lemma auditPhp_files: "auditPhp (e\<lparr>existsSync := files\<rparr>) = auditPhp e"
  by (intro ext) (unfold auditPhp_def cmd_files cmdExists_files phpParse_files, rule refl)

lemma auditGo_files: "auditGo (e\<lparr>existsSync := files\<rparr>) = auditGo e"
  by (intro ext) (unfold auditGo_def cmd_files cmdExists_files goVulns_files, rule refl)

lemma auditNode_files:
  assumes "files (join e p ''pnpm-lock.yaml'') = existsSync e (join e p ''pnpm-lock.yaml'')"
    and "files (join e p ''yarn.lock'') = existsSync e (join e p ''yarn.lock'')"
    and "files (join e p ''bun.lockb'') = existsSync e (join e p ''bun.lockb'')"
  shows "auditNode (e\<lparr>existsSync := files\<rparr>) p n = auditNode e p n"
  unfolding auditNode_def cmd_files nodeParse_files env_files_sel using assms by simp

lemma clean_empty: "clean (emptyResult p l c None)"
  by (simp add: clean_def emptyResult_def)

lemma not_truthyStr: "\<not> truthyStr s \<longleftrightarrow> s = None \<or> s = Some []"
  by (cases s) (simp_all add: truthyStr_def)

text \<open>
  Claim C9, as stated: a project path without a manifest gives a null error. In
  \<^verbatim>\<open>/work/empty\<close>, which holds no file, the rust adapter returns the parse-failure
  result (the tool printed an error message, which is not JSON); in \<^verbatim>\<open>/work/silent\<close>,
  which holds no file either, the node adapter returns the command-failure result
  (the tool printed nothing).
\<close>

theorem adapter_error_without_manifest:
  "\<not> existsSync exampleEnv (join exampleEnv ''/work/empty'' ''Cargo.toml'')
   \<and> \<not> existsSync exampleEnv (join exampleEnv ''/work/empty'' ''Cargo.lock'')
   \<and> error (auditProject exampleEnv ''/work/empty'' ''e'' ''rust'') = Some ''Failed to parse audit output.''
   \<and> \<not> existsSync exampleEnv (join exampleEnv ''/work/silent'' ''package.json'')
   \<and> error (auditProject exampleEnv ''/work/silent'' ''s'' ''node'') = Some ''Audit command failed or timed out.''"
  by (simp add: auditProject_def auditRust_def auditNode_def exampleEnv_sel example_files
        example_cmd example_cmd_silent example_cmdExists rustParse_def
        exampleParse_error_text emptyResult_def)

text \<open>
  Claim C9, amended. The adapters never look for a manifest file: the result of an
  audit is the same in every file system that agrees on the three lockfiles which the
  node adapter tests, so it is decided by the tool and its output, not by the absence of a
  manifest. When the audit command yields no output, the python, php and go adapters
  (their tool being installed) return a result with an empty list, all counts zero and
  a null error, whereas the node and rust adapters return an error result.
\<close>

theorem adapters_without_output:
  "(files (join e projectPath ''pnpm-lock.yaml'') = existsSync e (join e projectPath ''pnpm-lock.yaml'')
      \<and> files (join e projectPath ''yarn.lock'') = existsSync e (join e projectPath ''yarn.lock'')
      \<and> files (join e projectPath ''bun.lockb'') = existsSync e (join e projectPath ''bun.lockb'')
      \<longrightarrow> auditProject (e\<lparr>existsSync := files\<rparr>) projectPath projectName lang
            = auditProject e projectPath projectName lang)
   \<and> ((cmdExists e ''pip-audit'' \<or> cmdExists e ''pip3'')
        \<and> \<not> truthyStr (cmd e (pythonAuditCmd e) projectPath 60000)
      \<longrightarrow> clean (auditProject e projectPath projectName ''python''))
   \<and> (cmdExists e ''composer''
        \<and> \<not> truthyStr (cmd e ''composer audit --format=json'' projectPath 60000)
      \<longrightarrow> clean (auditProject e projectPath projectName ''php''))
   \<and> (cmdExists e ''govulncheck''
        \<and> \<not> truthyStr (cmd e ''govulncheck -json ./...'' projectPath 60000)
      \<longrightarrow> clean (auditProject e projectPath projectName ''go''))
   \<and> (\<not> truthyStr (cmd e (nodeAuditCmd e projectPath) projectPath 60000)
      \<longrightarrow> error (auditProject e projectPath projectName ''node'')
            = Some ''Audit command failed or timed out.'')
   \<and> ((cmdExists e ''cargo-audit'' \<or> cmdExists e ''cargo'')
        \<and> \<not> truthyStr (cmd e ''cargo audit --json'' projectPath 60000)
      \<longrightarrow> error (auditProject e projectPath projectName ''rust'') = Some ''Audit command failed.'')"
proof -
  have fs: "auditProject (e\<lparr>existsSync := files\<rparr>) projectPath projectName lang
            = auditProject e projectPath projectName lang"
    if "files (join e projectPath ''pnpm-lock.yaml'') = existsSync e (join e projectPath ''pnpm-lock.yaml'')"
      "files (join e projectPath ''yarn.lock'') = existsSync e (join e projectPath ''yarn.lock'')"
      "files (join e projectPath ''bun.lockb'') = existsSync e (join e projectPath ''bun.lockb'')"
    using that
    by (simp add: auditProject_def auditNode_files auditRust_files auditPython_files
          auditPhp_files auditGo_files)
  have py: "clean (auditProject e projectPath projectName ''python'')"
    if "cmdExists e ''pip-audit'' \<or> cmdExists e ''pip3''"
      "\<not> truthyStr (cmd e (pythonAuditCmd e) projectPath 60000)"
    using that
    by (auto simp: auditProject_def auditPython_def pythonAuditCmd_def Let_def not_truthyStr
          clean_empty)
  have php: "clean (auditProject e projectPath projectName ''php'')"
    if "cmdExists e ''composer''"
      "\<not> truthyStr (cmd e ''composer audit --format=json'' projectPath 60000)"
    using that by (auto simp: auditProject_def auditPhp_def not_truthyStr clean_empty)
  have go: "clean (auditProject e projectPath projectName ''go'')"
    if "cmdExists e ''govulncheck''"
      "\<not> truthyStr (cmd e ''govulncheck -json ./...'' projectPath 60000)"
    using that by (auto simp: auditProject_def auditGo_def not_truthyStr clean_empty)
  have node: "error (auditProject e projectPath projectName ''node'')
            = Some ''Audit command failed or timed out.''"
    if "\<not> truthyStr (cmd e (nodeAuditCmd e projectPath) projectPath 60000)"
    using that by (auto simp: auditProject_def auditNode_alt not_truthyStr emptyResult_def)
  have rust: "error (auditProject e projectPath projectName ''rust'') = Some ''Audit command failed.''"
    if "cmdExists e ''cargo-audit'' \<or> cmdExists e ''cargo''"
      "\<not> truthyStr (cmd e ''cargo audit --json'' projectPath 60000)"
    using that by (auto simp: auditProject_def auditRust_def not_truthyStr emptyResult_def)
  from fs py php go node rust show ?thesis by blast
qed

theorem adapters_without_output_witness:
  "manifestFiles (join exampleEnv ''/work/silent'' ''pnpm-lock.yaml'')
      = existsSync exampleEnv (join exampleEnv ''/work/silent'' ''pnpm-lock.yaml'')
   \<and> manifestFiles (join exampleEnv ''/work/silent'' ''yarn.lock'')
      = existsSync exampleEnv (join exampleEnv ''/work/silent'' ''yarn.lock'')
   \<and> manifestFiles (join exampleEnv ''/work/silent'' ''bun.lockb'')
      = existsSync exampleEnv (join exampleEnv ''/work/silent'' ''bun.lockb'')
   \<and> manifestFiles (join exampleEnv ''/work/silent'' ''Cargo.toml'')
   \<and> \<not> existsSync exampleEnv (join exampleEnv ''/work/silent'' ''Cargo.toml'')
   \<and> auditProject (exampleEnv\<lparr>existsSync := manifestFiles\<rparr>) ''/work/silent'' ''s'' ''rust''
      = auditProject exampleEnv ''/work/silent'' ''s'' ''rust''
   \<and> (cmdExists exampleEnv ''pip-audit'' \<or> cmdExists exampleEnv ''pip3'')
   \<and> \<not> truthyStr (cmd exampleEnv (pythonAuditCmd exampleEnv) ''/work/silent'' 60000)
   \<and> clean (auditProject exampleEnv ''/work/silent'' ''s'' ''python'')
   \<and> cmdExists exampleEnv ''composer''
   \<and> \<not> truthyStr (cmd exampleEnv ''composer audit --format=json'' ''/work/silent'' 60000)
   \<and> clean (auditProject exampleEnv ''/work/silent'' ''s'' ''php'')
   \<and> cmdExists exampleEnv ''govulncheck''
   \<and> \<not> truthyStr (cmd exampleEnv ''govulncheck -json ./...'' ''/work/silent'' 60000)
   \<and> clean (auditProject exampleEnv ''/work/silent'' ''s'' ''go'')
   \<and> \<not> truthyStr (cmd exampleEnv (nodeAuditCmd exampleEnv ''/work/silent'') ''/work/silent'' 60000)
   \<and> error (auditProject exampleEnv ''/work/silent'' ''s'' ''node'')
      = Some ''Audit command failed or timed out.''
   \<and> (cmdExists exampleEnv ''cargo-audit'' \<or> cmdExists exampleEnv ''cargo'')
   \<and> \<not> truthyStr (cmd exampleEnv ''cargo audit --json'' ''/work/silent'' 60000)
   \<and> error (auditProject exampleEnv ''/work/silent'' ''s'' ''rust'') = Some ''Audit command failed.''"
proof -
  have f: "manifestFiles (join exampleEnv ''/work/silent'' ''pnpm-lock.yaml'')
      = existsSync exampleEnv (join exampleEnv ''/work/silent'' ''pnpm-lock.yaml'')"
    "manifestFiles (join exampleEnv ''/work/silent'' ''yarn.lock'')
      = existsSync exampleEnv (join exampleEnv ''/work/silent'' ''yarn.lock'')"
    "manifestFiles (join exampleEnv ''/work/silent'' ''bun.lockb'')
      = existsSync exampleEnv (join exampleEnv ''/work/silent'' ''bun.lockb'')"
    by (simp_all add: manifestFiles_def exampleEnv_sel exampleFiles_def joinSlash_def)
  have m: "manifestFiles (join exampleEnv ''/work/silent'' ''Cargo.toml'')"
    "\<not> existsSync exampleEnv (join exampleEnv ''/work/silent'' ''Cargo.toml'')"
    by (simp_all add: manifestFiles_def exampleEnv_sel exampleFiles_def joinSlash_def)
  have t: "cmdExists exampleEnv ''pip-audit'' \<or> cmdExists exampleEnv ''pip3''"
    "cmdExists exampleEnv ''composer''" "cmdExists exampleEnv ''govulncheck''"
    "cmdExists exampleEnv ''cargo-audit'' \<or> cmdExists exampleEnv ''cargo''"
    by (simp_all add: example_cmdExists)
  have pc: "pythonAuditCmd exampleEnv = ''pip-audit --format=json -r requirements.txt''"
    by (simp add: pythonAuditCmd_def example_cmdExists)
  have nc: "nodeAuditCmd exampleEnv ''/work/silent'' = ''npm audit --json''"
    by (simp add: nodeAuditCmd_def exampleEnv_sel example_files)
  have s: "\<not> truthyStr (cmd exampleEnv (pythonAuditCmd exampleEnv) ''/work/silent'' 60000)"
    "\<not> truthyStr (cmd exampleEnv ''composer audit --format=json'' ''/work/silent'' 60000)"
    "\<not> truthyStr (cmd exampleEnv ''govulncheck -json ./...'' ''/work/silent'' 60000)"
    "\<not> truthyStr (cmd exampleEnv (nodeAuditCmd exampleEnv ''/work/silent'') ''/work/silent'' 60000)"
    "\<not> truthyStr (cmd exampleEnv ''cargo audit --json'' ''/work/silent'' 60000)"
    by (simp_all add: pc nc example_cmd_silent truthyStr_def)
  from adapters_without_output
    [of manifestFiles exampleEnv "''/work/silent''" "''s''" "''rust''"] f m t s
  show ?thesis by blast
qed

subsection \<open>The node adapter on a yarn project\<close>

lemma cmd_parse_indep: "cmd (e\<lparr>JSON_parse := p\<rparr>) c d t = cmd e c d t"
  by (simp add: cmd_def)

text \<open>
  Claim C10. When the lockfile detection selects yarn (\<^verbatim>\<open>yarn.lock\<close> present,
  \<^verbatim>\<open>pnpm-lock.yaml\<close> absent) and the audit command produces output (\<^verbatim>\<open>cmd\<close> hands back
  a non-empty string), the node adapter returns the result with an empty list, all
  counts zero and a null error. The output is never parsed: the result is the same
  whatever \<^verbatim>\<open>JSON.parse\<close> would make of it.
\<close>

theorem auditNode_yarn_never_parses:
  assumes "existsSync e (join e projectPath ''yarn.lock'')"
    and "\<not> existsSync e (join e projectPath ''pnpm-lock.yaml'')"
    and "cmd e ''yarn audit --json'' projectPath 60000 = Some raw"
    and "raw \<noteq> []"
  shows "auditNode (e\<lparr>JSON_parse := parse\<rparr>) projectPath projectName =
     \<lparr>project = projectName, language = ''node'', vulnerabilities = [],
      totalVulnerabilities = numOf 0, critical = numOf 0, high = numOf 0,
      moderate = numOf 0, low = numOf 0, auditCommand = ''yarn audit --json'', error = None\<rparr>"
  using assms by (simp add: auditNode_def emptyResult_def cmd_parse_indep)

theorem auditNode_yarn_never_parses_witness:
  "existsSync exampleEnv (join exampleEnv ''/work/yarn-app'' ''yarn.lock'')
   \<and> \<not> existsSync exampleEnv (join exampleEnv ''/work/yarn-app'' ''pnpm-lock.yaml'')
   \<and> cmd exampleEnv ''yarn audit --json'' ''/work/yarn-app'' 60000 = Some yarnReport
   \<and> yarnReport \<noteq> []
   \<and> exampleParse yarnReport = Some yarnReportJson
   \<and> auditNode (exampleEnv\<lparr>JSON_parse := exampleParse\<rparr>) ''/work/yarn-app'' ''y'' =
     \<lparr>project = ''y'', language = ''node'', vulnerabilities = [],
      totalVulnerabilities = numOf 0, critical = numOf 0, high = numOf 0,
      moderate = numOf 0, low = numOf 0, auditCommand = ''yarn audit --json'', error = None\<rparr>"
proof -
  have h1: "existsSync exampleEnv (join exampleEnv ''/work/yarn-app'' ''yarn.lock'')"
    by (simp add: exampleEnv_sel example_files)
  have h2: "\<not> existsSync exampleEnv (join exampleEnv ''/work/yarn-app'' ''pnpm-lock.yaml'')"
    by (simp add: exampleEnv_sel example_files)
  have h3: "cmd exampleEnv ''yarn audit --json'' ''/work/yarn-app'' 60000 = Some yarnReport"
    by (simp add: example_cmd)
  have h4: "yarnReport \<noteq> []" by (simp add: reports_nonempty)
  have h5: "exampleParse yarnReport = Some yarnReportJson" by (simp add: exampleParse_reports)
  from auditNode_yarn_never_parses [OF h1 h2 h3 h4] h1 h2 h3 h4 h5 show ?thesis by blast
qed

end
